theory Spec2Isabelle
  imports Complex_Main "HOL-Library.Signed_Division" "HOL-Library.Monad_Syntax"
begin

section \<open>The backward attention kernel of evoformer\_attn/kernel\_backward.h\<close>

text \<open>
  The theory embeds \<^verbatim>\<open>AttentionBackwardKernel\<close> of
  \<^verbatim>\<open>csrc/deepspeed4science/evoformer_attn/kernel_backward.h\<close>.

  Conventions of the embedding.
  \<^item> The template parameters and the \<^verbatim>\<open>static constexpr\<close> members of the
    kernel are the fields of and the functions on a record \<open>config\<close>.
  \<^item> C++ integers are \<open>int\<close>; \<^verbatim>\<open>/\<close> and \<^verbatim>\<open>%\<close> are the truncating
    \<open>sdiv\<close> and \<open>smod\<close>. Where a signed operation of the source can overflow
    and a property depends on it (the workspace sizes), the operation is checked and an
    overflow, which C++ leaves undefined, is the value \<open>None\<close>.
  \<^item> \<^verbatim>\<open>accum_t = float\<close> is idealised as \<open>real\<close>: rounding of float
    arithmetic is not modelled. The storage type \<^verbatim>\<open>scalar_t\<close> is a type
    parameter \<open>'s\<close> with the two conversions of the source,
    \<^verbatim>\<open>accum_t(x)\<close> and \<^verbatim>\<open>scalar_t(x)\<close>, as functions.
  \<^item> A pointer is an element index into the heap of its element type (a map from
    indices to values); \<^verbatim>\<open>ptr[i]\<close> is the heap at \<open>ptr + i\<close>.
\<close>

subsection \<open>Template parameters and static constants\<close>

datatype scalar_kind = Float32 | Float16 | BFloat16

record config =
  scalar_t :: scalar_kind
  kIsAligned :: bool
  kApplyDropout :: bool
  kPreload :: bool
  kBlockSizeI :: int
  kBlockSizeJ :: int
  kMaxK :: int
  broadcast_1_kEnable :: bool
  broadcast_2_kEnable :: bool
  kMinComputeCapability :: int
  kMinimumAlignment :: int
  kSupportsTranspose :: bool

text \<open>
  \<open>kMinComputeCapability\<close> is \<^verbatim>\<open>ArchTag::kMinComputeCapability\<close>,
  \<open>kMinimumAlignment\<close> is \<^verbatim>\<open>GemmType::kMinimumAlignment\<close> and
  \<open>kSupportsTranspose\<close> is \<^verbatim>\<open>TransposeWarpIterator::kSupportsTranspose\<close>
  of the warp iterator of \<^verbatim>\<open>MatmulGradK\<close>: constants of headers outside this
  file, taken as parameters.
\<close>

fun sizeof_bits :: "scalar_kind \<Rightarrow> int" where
  "sizeof_bits Float32 = 32"
| "sizeof_bits Float16 = 16"
| "sizeof_bits BFloat16 = 16"

definition kIsHalf :: "config \<Rightarrow> bool" where
  "kIsHalf cfg = (sizeof_bits (scalar_t cfg) \<le> 16)"

definition kOutputInRF :: "config \<Rightarrow> bool" where
  "kOutputInRF cfg = (kIsHalf cfg \<and> kMaxK cfg \<le> kBlockSizeI cfg)"

definition kWarpSize :: int where
  "kWarpSize = 32"

definition kNumWarpsPerBlock :: "config \<Rightarrow> int" where
  "kNumWarpsPerBlock cfg = (kBlockSizeI cfg * kBlockSizeJ cfg) sdiv (32 * 32)"

definition kNumThreads :: "config \<Rightarrow> int" where
  "kNumThreads cfg = kWarpSize * kNumWarpsPerBlock cfg"

definition kKernelComputesDelta :: "config \<Rightarrow> bool" where
  "kKernelComputesDelta cfg =
     (kIsHalf cfg \<and> (kOutputInRF cfg \<or> kMinComputeCapability cfg \<noteq> 70))"

text \<open>\<^verbatim>\<open>output_accum_t\<close> is float and \<^verbatim>\<open>output_t\<close> is \<^verbatim>\<open>scalar_t\<close>.\<close>

definition output_is_accum :: "config \<Rightarrow> bool" where
  "output_is_accum cfg = (scalar_t cfg = Float32)"

definition kNeedsAccumGradQ :: "config \<Rightarrow> bool" where
  "kNeedsAccumGradQ cfg = (\<not> output_is_accum cfg)"

definition kNeedsAccumGradK :: "config \<Rightarrow> bool" where
  "kNeedsAccumGradK cfg = (\<not> kOutputInRF cfg \<and> \<not> output_is_accum cfg)"

definition kNeedsAccumGradV :: "config \<Rightarrow> bool" where
  "kNeedsAccumGradV cfg = (\<not> kOutputInRF cfg \<and> \<not> output_is_accum cfg)"

text \<open>
  \<^verbatim>\<open>MatmulGradK::DefaultMmaFromSmem::kIsTransposedA\<close>: the transposing variant
  \<^verbatim>\<open>DefaultMmaFromSmemT\<close> is instantiated with \<^verbatim>\<open>kTransposeA = kPreload\<close>
  and is selected when its \<^verbatim>\<open>kIsTransposedA\<close> holds.
\<close>

definition kIsTransposedA :: "config \<Rightarrow> bool" where
  "kIsTransposedA cfg = (kSupportsTranspose cfg \<and> kPreload cfg)"

subsection \<open>Params\<close>

record Params =
  query_ptr :: int
  key_ptr :: int
  value_ptr :: int
  logsumexp_ptr :: int
  output_ptr :: int
  grad_output_ptr :: int
  delta_ptr :: int
  grad_query_ptr :: int
  grad_key_ptr :: int
  grad_value_ptr :: int
  grad_bias1_ptr :: int
  grad_bias2_ptr :: int
  bias1_ptr :: int
  bias2_ptr :: int
  scale :: real
  head_dim :: int
  head_dim_value :: int
  num_queries :: int
  num_keys :: int
  num_heads :: int
  q_strideM :: int
  k_strideM :: int
  v_strideM :: int
  gO_strideM :: int
  gQKV_strideM_multiplier :: int
  dropout_batch_head_rng_offset :: int
  dropout_prob :: real
  q_strideH :: int
  k_strideH :: int
  v_strideH :: int
  q_strideB :: int
  k_strideB :: int
  v_strideB :: int
  lse_strideB :: int
  lse_strideH :: int
  num_batches :: int


definition gQ_strideM :: "Params \<Rightarrow> int" where
  "gQ_strideM p = gQKV_strideM_multiplier p * num_heads p * head_dim p"

definition gK_strideM :: "Params \<Rightarrow> int" where
  "gK_strideM p = gQKV_strideM_multiplier p * num_heads p * head_dim p"

definition gV_strideM :: "Params \<Rightarrow> int" where
  "gV_strideM p = gQKV_strideM_multiplier p * num_heads p * head_dim_value p"

subsection \<open>check\_supported\<close>

text \<open>
  Modelled from the spec: the macros \<^verbatim>\<open>EVOFORMER_CHECK\<close> and
  \<^verbatim>\<open>CHECK_ALIGNED_PTR\<close> are defined in gemm\_kernel\_utils.h, which is not
  among the sources. A check whose condition fails ends the function with its message
  (the named failure, \<open>Inl\<close>); the checks run in the order of the source, and the
  function returns true (\<open>Inr True\<close>) when every one has passed. A pointer is
  aligned when its address is a multiple of the alignment. For this function the pointer
  fields of \<open>Params\<close> are read as addresses.
\<close>

fun EVOFORMER_CHECKS :: "(bool \<times> string) list \<Rightarrow> string + bool" where
  "EVOFORMER_CHECKS [] = Inr True"
| "EVOFORMER_CHECKS ((cond, err) # rest) =
     (if cond then EVOFORMER_CHECKS rest else Inl err)"

definition ALIGNED_PTR :: "int \<Rightarrow> int \<Rightarrow> bool" where
  "ALIGNED_PTR ptr alignment = (ptr mod alignment = 0)"

definition supported_checks :: "config \<Rightarrow> Params \<Rightarrow> (bool \<times> string) list" where
  "supported_checks cfg p =
    [(ALIGNED_PTR (query_ptr p) (kMinimumAlignment cfg),
        ''p.query_ptr is not correctly aligned''),
     (ALIGNED_PTR (key_ptr p) (kMinimumAlignment cfg),
        ''p.key_ptr is not correctly aligned''),
     (ALIGNED_PTR (value_ptr p) (kMinimumAlignment cfg),
        ''p.value_ptr is not correctly aligned''),
     (ALIGNED_PTR (output_ptr p) (kMinimumAlignment cfg),
        ''p.output_ptr is not correctly aligned''),
     (ALIGNED_PTR (grad_output_ptr p) (kMinimumAlignment cfg),
        ''p.grad_output_ptr is not correctly aligned''),
     (lse_strideH p smod 8 = 0, ''LSE is not correctly aligned''),
     (lse_strideB p smod 8 = 0, ''LSE is not correctly aligned''),
     (num_heads p \<le> 1 \<or> q_strideH p smod kMinimumAlignment cfg = 0,
        ''query is not correctly aligned (strideH)''),
     (num_heads p \<le> 1 \<or> k_strideH p smod kMinimumAlignment cfg = 0,
        ''key is not correctly aligned (strideH)''),
     (num_heads p \<le> 1 \<or> v_strideH p smod kMinimumAlignment cfg = 0,
        ''value is not correctly aligned (strideH)''),
     (num_batches p \<le> 1 \<or> q_strideB p smod kMinimumAlignment cfg = 0,
        ''query is not correctly aligned (strideB)''),
     (num_batches p \<le> 1 \<or> k_strideB p smod kMinimumAlignment cfg = 0,
        ''key is not correctly aligned (strideB)''),
     (num_batches p \<le> 1 \<or> v_strideB p smod kMinimumAlignment cfg = 0,
        ''value is not correctly aligned (strideB)''),
     (q_strideM p smod kMinimumAlignment cfg = 0,
        ''query is not correctly aligned (strideM)''),
     (k_strideM p smod kMinimumAlignment cfg = 0,
        ''key is not correctly aligned (strideM)''),
     (v_strideM p smod kMinimumAlignment cfg = 0,
        ''value is not correctly aligned (strideM)''),
     (dropout_prob p \<le> 1 \<and> dropout_prob p \<ge> 0,
        ''Invalid value for `dropout_prob`''),
     (kApplyDropout cfg \<or> dropout_prob p = 0,
        ''Set `kApplyDropout`=True to support `dropout_prob > 0`''),
     (head_dim p > 0, ''Invalid value for `head_dim`''),
     (head_dim_value p > 0, ''Invalid value for `head_dim_value`''),
     (num_queries p > 0, ''Invalid value for `num_queries`''),
     (num_keys p > 0, ''Invalid value for `num_keys`''),
     (num_heads p > 0, ''Invalid value for `num_heads`''),
     (num_batches p > 0, ''Invalid value for `num_batches`''),
     (head_dim p \<le> kMaxK cfg, ''kMaxK: Expected `head_dim < kMaxK`''),
     (head_dim_value p \<le> kMaxK cfg, ''kMaxK: Expected `head_dim_value < kMaxK`'')]"

definition check_supported :: "config \<Rightarrow> Params \<Rightarrow> string + bool" where
  "check_supported cfg p = EVOFORMER_CHECKS (supported_checks cfg p)"

text \<open>
  The preconditions as the specification lists them: aligned input pointers, LogSumExp
  strides that are multiples of 8, aligned per-row strides, the dropout probability in
  \<open>[0, 1]\<close> and zero unless the kernel applies dropout, strictly positive dimensions,
  and feature dimensions of at most \<open>kMaxK\<close>.
\<close>

definition listed_preconditions :: "config \<Rightarrow> Params \<Rightarrow> bool" where
  "listed_preconditions cfg p =
    (ALIGNED_PTR (query_ptr p) (kMinimumAlignment cfg) \<and>
     ALIGNED_PTR (key_ptr p) (kMinimumAlignment cfg) \<and>
     ALIGNED_PTR (value_ptr p) (kMinimumAlignment cfg) \<and>
     ALIGNED_PTR (output_ptr p) (kMinimumAlignment cfg) \<and>
     ALIGNED_PTR (grad_output_ptr p) (kMinimumAlignment cfg) \<and>
     lse_strideB p smod 8 = 0 \<and> lse_strideH p smod 8 = 0 \<and>
     q_strideM p smod kMinimumAlignment cfg = 0 \<and>
     k_strideM p smod kMinimumAlignment cfg = 0 \<and>
     v_strideM p smod kMinimumAlignment cfg = 0 \<and>
     0 \<le> dropout_prob p \<and> dropout_prob p \<le> 1 \<and>
     (kApplyDropout cfg \<or> dropout_prob p = 0) \<and>
     0 < head_dim p \<and> 0 < head_dim_value p \<and> 0 < num_queries p \<and>
     0 < num_keys p \<and> 0 < num_heads p \<and> 0 < num_batches p \<and>
     head_dim p \<le> kMaxK cfg \<and> head_dim_value p \<le> kMaxK cfg)"

text \<open>
  The checks of the source that the list leaves out: the head strides of query, key and
  value when there is more than one head, and their batch strides when there is more
  than one batch.
\<close>

definition head_batch_strides_aligned :: "config \<Rightarrow> Params \<Rightarrow> bool" where
  "head_batch_strides_aligned cfg p =
    ((num_heads p \<le> 1 \<or>
        (q_strideH p smod kMinimumAlignment cfg = 0 \<and>
         k_strideH p smod kMinimumAlignment cfg = 0 \<and>
         v_strideH p smod kMinimumAlignment cfg = 0)) \<and>
     (num_batches p \<le> 1 \<or>
        (q_strideB p smod kMinimumAlignment cfg = 0 \<and>
         k_strideB p smod kMinimumAlignment cfg = 0 \<and>
         v_strideB p smod kMinimumAlignment cfg = 0)))"

text \<open>Example inputs: a half-precision kernel with 64 by 64 tiles.\<close>

definition cfg_half :: config where
  "cfg_half = \<lparr> scalar_t = Float16, kIsAligned = True, kApplyDropout = False,
     kPreload = False, kBlockSizeI = 64, kBlockSizeJ = 64, kMaxK = 128,
     broadcast_1_kEnable = False, broadcast_2_kEnable = False,
     kMinComputeCapability = 80, kMinimumAlignment = 8,
     kSupportsTranspose = False \<rparr>"

definition params_small :: Params where
  "params_small = \<lparr> query_ptr = 0, key_ptr = 1024, value_ptr = 2048,
     logsumexp_ptr = 0, output_ptr = 3072, grad_output_ptr = 4096, delta_ptr = 1024,
     grad_query_ptr = 5120, grad_key_ptr = 6144, grad_value_ptr = 7168,
     grad_bias1_ptr = 0, grad_bias2_ptr = 0, bias1_ptr = 0, bias2_ptr = 0,
     scale = 1 / 2, head_dim = 8, head_dim_value = 8, num_queries = 5, num_keys = 5,
     num_heads = 2, q_strideM = 16, k_strideM = 16, v_strideM = 16, gO_strideM = 16,
     gQKV_strideM_multiplier = 1, dropout_batch_head_rng_offset = 0, dropout_prob = 0,
     q_strideH = 8, k_strideH = 8, v_strideH = 8,
     q_strideB = 80, k_strideB = 80, v_strideB = 80,
     lse_strideB = 16, lse_strideH = 8, num_batches = 1 \<rparr>"

subsection \<open>Workspace sizes\<close>

text \<open>
  Signed arithmetic of width \<open>w\<close>: \<open>chk w x\<close> is the result \<open>x\<close> of an
  operation when it fits the type and \<open>None\<close> on overflow, where C++ defines no
  result.
\<close>

definition fits :: "nat \<Rightarrow> int \<Rightarrow> bool" where
  "fits w x = (- (2 ^ (w - 1)) \<le> x \<and> x < 2 ^ (w - 1))"

definition chk :: "nat \<Rightarrow> int \<Rightarrow> int option" where
  "chk w x = (if fits w x then Some x else None)"

text \<open>
  Modelled from the spec: the helper \<^verbatim>\<open>align_up\<close> is defined in
  gemm\_kernel\_utils.h, which is not among the sources. It pads \<open>n\<close> to the next
  multiple of \<open>m\<close>, computed as \<^verbatim>\<open>((n + m - 1) / m) * m\<close> in the integer type
  of its arguments: \<^verbatim>\<open>int32_t\<close> in \<^verbatim>\<open>workspace_elements_*\<close>, where the
  block sizes are cast to it, and \<^verbatim>\<open>int64_t\<close> in \<^verbatim>\<open>workspace_strideBH\<close>.
\<close>

definition align_up_c :: "nat \<Rightarrow> int \<Rightarrow> int \<Rightarrow> int option" where
  "align_up_c w n m = do {
     a \<leftarrow> chk w (n + m);
     b \<leftarrow> chk w (a - 1);
     c \<leftarrow> (if m = 0 then None else chk w (b sdiv m));
     chk w (c * m)
   }"

text \<open>
  The two \<^verbatim>\<open>align_up\<close> results are \<^verbatim>\<open>int32_t\<close> and so is their product;
  the function's return type \<^verbatim>\<open>int64_t\<close> widens the product afterwards.
\<close>

definition workspace_elements_gk :: "config \<Rightarrow> Params \<Rightarrow> int option" where
  "workspace_elements_gk cfg p =
     (if \<not> kNeedsAccumGradK cfg then Some 0
      else do {
        a \<leftarrow> align_up_c 32 (num_keys p) (kBlockSizeJ cfg);
        b \<leftarrow> align_up_c 32 (head_dim p) (kBlockSizeI cfg);
        chk 32 (a * b)
      })"

definition workspace_elements_gv :: "config \<Rightarrow> Params \<Rightarrow> int option" where
  "workspace_elements_gv cfg p =
     (if \<not> kNeedsAccumGradV cfg then Some 0
      else do {
        a \<leftarrow> align_up_c 32 (num_keys p) (kBlockSizeJ cfg);
        b \<leftarrow> align_up_c 32 (head_dim_value p) (kBlockSizeI cfg);
        chk 32 (a * b)
      })"

definition workspace_elements_gq :: "config \<Rightarrow> Params \<Rightarrow> int option" where
  "workspace_elements_gq cfg p =
     (if \<not> kNeedsAccumGradQ cfg then Some 0
      else if num_keys p \<le> kBlockSizeJ cfg then Some 0
      else do {
        a \<leftarrow> align_up_c 32 (num_queries p) (kBlockSizeI cfg);
        b \<leftarrow> align_up_c 32 (head_dim p) (kBlockSizeJ cfg);
        chk 32 (a * b)
      })"

definition workspace_strideBH :: "config \<Rightarrow> Params \<Rightarrow> int option" where
  "workspace_strideBH cfg p = do {
     gk \<leftarrow> workspace_elements_gk cfg p;
     gv \<leftarrow> workspace_elements_gv cfg p;
     s \<leftarrow> chk 64 (gk + gv);
     gq \<leftarrow> workspace_elements_gq cfg p;
     t \<leftarrow> chk 64 (s + gq);
     align_up_c 64 t 4
   }"

text \<open>
  \<^verbatim>\<open>num_batches * num_heads * workspace_strideBH() * sizeof(float)\<close>: the first
  product is \<^verbatim>\<open>int32_t\<close>, the second \<^verbatim>\<open>int64_t\<close>; the last converts to the
  unsigned 64-bit \<^verbatim>\<open>size_t\<close>, multiplies modulo \<open>2 ^ 64\<close>, and the return converts
  back to \<^verbatim>\<open>int64_t\<close>.
\<close>

definition to_uint64 :: "int \<Rightarrow> int" where
  "to_uint64 x = x mod 2 ^ 64"

definition to_int64 :: "int \<Rightarrow> int" where
  "to_int64 x = (if x mod 2 ^ 64 < 2 ^ 63 then x mod 2 ^ 64 else x mod 2 ^ 64 - 2 ^ 64)"

definition sizeof_float :: int where
  "sizeof_float = 4"

definition workspace_size :: "config \<Rightarrow> Params \<Rightarrow> int option" where
  "workspace_size cfg p = do {
     bh \<leftarrow> chk 32 (num_batches p * num_heads p);
     s \<leftarrow> workspace_strideBH cfg p;
     t \<leftarrow> chk 64 (bh * s);
     Some (to_int64 (to_uint64 t * sizeof_float))
   }"

text \<open>
  The sizes as the specification states them, over the unbounded integers:
  \<open>align_up\<close> rounds up to a multiple.
\<close>

definition align_up :: "int \<Rightarrow> int \<Rightarrow> int" where
  "align_up n m = ((n + m - 1) div m) * m"

definition E_gk :: "config \<Rightarrow> Params \<Rightarrow> int" where
  "E_gk cfg p = (if kNeedsAccumGradK cfg
     then align_up (num_keys p) (kBlockSizeJ cfg) * align_up (head_dim p) (kBlockSizeI cfg)
     else 0)"

definition E_gv :: "config \<Rightarrow> Params \<Rightarrow> int" where
  "E_gv cfg p = (if kNeedsAccumGradV cfg
     then align_up (num_keys p) (kBlockSizeJ cfg) * align_up (head_dim_value p) (kBlockSizeI cfg)
     else 0)"

definition E_gq :: "config \<Rightarrow> Params \<Rightarrow> int" where
  "E_gq cfg p = (if kNeedsAccumGradQ cfg \<and> num_keys p > kBlockSizeJ cfg
     then align_up (num_queries p) (kBlockSizeI cfg) * align_up (head_dim p) (kBlockSizeJ cfg)
     else 0)"

definition workspace_size_spec :: "config \<Rightarrow> Params \<Rightarrow> int" where
  "workspace_size_spec cfg p =
     num_batches p * num_heads p * align_up (E_gk cfg p + E_gv cfg p + E_gq cfg p) 4 * 4"

text \<open>
  The inputs on which no operation of \<^verbatim>\<open>workspace_size\<close> overflows: positive
  block sizes and dimensions (the latter is what \<open>check_supported\<close> admits), every
  \<^verbatim>\<open>n + m\<close> of an \<^verbatim>\<open>align_up\<close> and every plane size within
  \<^verbatim>\<open>int32_t\<close>, and the size in bytes within \<^verbatim>\<open>int64_t\<close>.
\<close>

definition workspace_in_range :: "config \<Rightarrow> Params \<Rightarrow> bool" where
  "workspace_in_range cfg p =
    (0 < kBlockSizeI cfg \<and> 0 < kBlockSizeJ cfg \<and>
     0 < num_queries p \<and> 0 < num_keys p \<and> 0 < head_dim p \<and> 0 < head_dim_value p \<and>
     0 < num_heads p \<and> 0 < num_batches p \<and>
     num_queries p + kBlockSizeI cfg < 2 ^ 31 \<and>
     num_keys p + kBlockSizeJ cfg < 2 ^ 31 \<and>
     head_dim p + kBlockSizeI cfg < 2 ^ 31 \<and>
     head_dim p + kBlockSizeJ cfg < 2 ^ 31 \<and>
     head_dim_value p + kBlockSizeI cfg < 2 ^ 31 \<and>
     align_up (num_keys p) (kBlockSizeJ cfg) * align_up (head_dim p) (kBlockSizeI cfg) < 2 ^ 31 \<and>
     align_up (num_keys p) (kBlockSizeJ cfg) * align_up (head_dim_value p) (kBlockSizeI cfg) < 2 ^ 31 \<and>
     align_up (num_queries p) (kBlockSizeI cfg) * align_up (head_dim p) (kBlockSizeJ cfg) < 2 ^ 31 \<and>
     num_batches p * num_heads p < 2 ^ 31 \<and>
     workspace_size_spec cfg p < 2 ^ 63)"

text \<open>Further example inputs: a float kernel, and a problem of two tiles per axis.\<close>

definition cfg_float :: config where
  "cfg_float = cfg_half \<lparr> scalar_t := Float32 \<rparr>"

definition params_two_tiles :: Params where
  "params_two_tiles = params_small \<lparr> num_queries := 70, num_keys := 100 \<rparr>"

text \<open>A problem of \<open>2 ^ 24\<close> keys with a feature dimension of 128.\<close>

definition params_many_keys :: Params where
  "params_many_keys = params_small \<lparr> num_keys := 2 ^ 24, head_dim := 128 \<rparr>"

subsection \<open>Loops and stages\<close>

text \<open>
  \<^verbatim>\<open>for (; i < n; i += step) body\<close>, returning the counter after the loop (the
  source reads \<^verbatim>\<open>key_start\<close> and \<^verbatim>\<open>query_start\<close> after their loops) and
  the state. A loop that does not end, or whose body does not, has no result.
\<close>

partial_function (option) for_loop ::
  "int \<Rightarrow> int \<Rightarrow> int \<Rightarrow> (int \<Rightarrow> 's \<Rightarrow> 's option) \<Rightarrow> 's \<Rightarrow> (int \<times> 's) option"
where
  "for_loop i n step body s =
     (if i < n then Option.bind (body i s) (\<lambda>s'. for_loop (i + step) n step body s')
      else Some (i, s))"

text \<open>Running a list of steps in order.\<close>

fun run_list :: "('a \<Rightarrow> 's \<Rightarrow> 's option) \<Rightarrow> 'a list \<Rightarrow> 's \<Rightarrow> 's option" where
  "run_list body [] s = Some s"
| "run_list body (x # xs) s = Option.bind (body x s) (run_list body xs)"

text \<open>The values \<open>i, i + step, \<dots>\<close> below \<open>n\<close> that the counter of a loop takes.\<close>

function steps :: "int \<Rightarrow> int \<Rightarrow> int \<Rightarrow> int list" where
  "steps i n step = (if i < n \<and> 0 < step then i # steps (i + step) n step else [])"
  by pat_completeness auto
termination
  by (relation "measure (\<lambda>(i, n, step). nat (n - i))") auto

declare steps.simps [simp del]

text \<open>
  The device functions that \<^verbatim>\<open>attention_kernel\<close> calls, with their template and
  call arguments: \<^verbatim>\<open>computeDelta<kElementsPerAccess>(p, query_start)\<close>,
  \<^verbatim>\<open>processBlockIJ<skipBoundsChecks>(query_start, key_start)\<close>,
  \<^verbatim>\<open>writeFragsToGmem<skipBoundsChecks>(key_start)\<close> and so on. The kernel's
  control flow is embedded over any interpretation \<open>exec\<close> of these stages on a state.
\<close>

datatype stage =
    PrologueQkNextIteration bool int int
  | ComputeDelta int int
  | SyncThreads
  | ClearOutputFrags
  | ProcessBlockIJ bool int int
  | WriteFragsToGmem bool int
  | ZfillGradKV bool int

definition getQueryStart :: "Params \<Rightarrow> int \<Rightarrow> int" where
  "getQueryStart p key_start = 0"

definition kPrologueQK :: "config \<Rightarrow> bool" where
  "kPrologueQK cfg = kPreload cfg"

text \<open>The delta pass of \<^verbatim>\<open>attention_kernel\<close> (\<^verbatim>\<open>if (kKernelComputesDelta)\<close>).\<close>

definition compute_delta_pass ::
  "(stage \<Rightarrow> 's \<Rightarrow> 's option) \<Rightarrow> config \<Rightarrow> Params \<Rightarrow> 's \<Rightarrow> 's option" where
  "compute_delta_pass exec cfg p s =
     (if kKernelComputesDelta cfg then
        (let kOptimalElements = 128 sdiv sizeof_bits (scalar_t cfg) in
         do {
           (query_start, s1) \<leftarrow>
             (if head_dim_value p smod kOptimalElements = 0
              then for_loop 0 (num_queries p) (kBlockSizeI cfg)
                     (\<lambda>query_start. exec (ComputeDelta kOptimalElements query_start)) s
              else for_loop 0 (num_queries p) (kBlockSizeI cfg)
                     (\<lambda>query_start. exec (ComputeDelta 1 query_start)) s);
           exec SyncThreads s1
         })
      else Some s)"

text \<open>The flush after the query loop of a key tile.\<close>

definition flush_key_tile ::
  "(stage \<Rightarrow> 's \<Rightarrow> 's option) \<Rightarrow> config \<Rightarrow> Params \<Rightarrow> bool \<Rightarrow> int \<Rightarrow> 's \<Rightarrow> 's option" where
  "flush_key_tile exec cfg p skipBoundsChecks key_start s =
     (if kOutputInRF cfg then exec (WriteFragsToGmem skipBoundsChecks key_start) s
      else if getQueryStart p key_start \<ge> num_queries p
      then exec (ZfillGradKV skipBoundsChecks key_start) s
      else Some s)"

text \<open>The body of the loop over the full key tiles.\<close>

definition full_key_tile ::
  "(stage \<Rightarrow> 's \<Rightarrow> 's option) \<Rightarrow> config \<Rightarrow> Params \<Rightarrow> int \<Rightarrow> 's \<Rightarrow> 's option" where
  "full_key_tile exec cfg p key_start s = do {
     s1 \<leftarrow> exec ClearOutputFrags s;
     let query_start = getQueryStart p key_start;
     let query_end = query_start +
           (num_queries p - query_start) sdiv kBlockSizeI cfg * kBlockSizeI cfg;
     (query_start, s2) \<leftarrow> for_loop query_start query_end (kBlockSizeI cfg)
         (\<lambda>query_start. exec (ProcessBlockIJ True query_start key_start)) s1;
     s3 \<leftarrow> (if query_start < num_queries p
            then exec (ProcessBlockIJ False query_start key_start) s2 else Some s2);
     s4 \<leftarrow> flush_key_tile exec cfg p True key_start s3;
     exec SyncThreads s4
   }"

text \<open>The last, partial key tile (\<^verbatim>\<open>if (key_start != p.num_keys)\<close>).\<close>

definition last_key_tile ::
  "(stage \<Rightarrow> 's \<Rightarrow> 's option) \<Rightarrow> config \<Rightarrow> Params \<Rightarrow> int \<Rightarrow> 's \<Rightarrow> 's option" where
  "last_key_tile exec cfg p key_start s = do {
     s1 \<leftarrow> exec ClearOutputFrags s;
     let query_start = getQueryStart p key_start;
     (query_start, s2) \<leftarrow> for_loop query_start (num_queries p) (kBlockSizeI cfg)
         (\<lambda>query_start. exec (ProcessBlockIJ False query_start key_start)) s1;
     flush_key_tile exec cfg p False key_start s2
   }"

definition attention_kernel ::
  "(stage \<Rightarrow> 's \<Rightarrow> 's option) \<Rightarrow> config \<Rightarrow> Params \<Rightarrow> 's \<Rightarrow> 's option" where
  "attention_kernel exec cfg p s = do {
     s1 \<leftarrow> (if kPrologueQK cfg then exec (PrologueQkNextIteration True 0 0) s else Some s);
     s2 \<leftarrow> compute_delta_pass exec cfg p s1;
     let key_end = num_keys p sdiv kBlockSizeJ cfg * kBlockSizeJ cfg;
     (key_start, s3) \<leftarrow> for_loop 0 key_end (kBlockSizeJ cfg) (full_key_tile exec cfg p) s2;
     if key_start \<noteq> num_keys p then last_key_tile exec cfg p key_start s3 else Some s3
   }"

text \<open>
  The valid row and column counts of a tile, from the head of
  \<^verbatim>\<open>processBlockIJ\<close>; \<^verbatim>\<open>MatmulQK::Mma::Shape\<close> is
  \<^verbatim>\<open>GemmShape<kBlockSizeJ, kBlockSizeI, _>\<close>, so \<^verbatim>\<open>kN = kBlockSizeI\<close> and
  \<^verbatim>\<open>kM = kBlockSizeJ\<close>.
\<close>

definition num_queries_in_block :: "config \<Rightarrow> Params \<Rightarrow> bool \<Rightarrow> int \<Rightarrow> int" where
  "num_queries_in_block cfg p skipBoundsChecks query_start =
     (if skipBoundsChecks then kBlockSizeI cfg
      else min (kBlockSizeI cfg) (num_queries p - query_start))"

definition num_keys_in_block :: "config \<Rightarrow> Params \<Rightarrow> bool \<Rightarrow> int \<Rightarrow> int" where
  "num_keys_in_block cfg p skipBoundsChecks key_start =
     (if skipBoundsChecks then kBlockSizeJ cfg
      else min (kBlockSizeJ cfg) (num_keys p - key_start))"

text \<open>The kernel run on the interpretation that records each stage it is asked for.\<close>

definition kernel_trace :: "config \<Rightarrow> Params \<Rightarrow> stage list option" where
  "kernel_trace cfg p = attention_kernel (\<lambda>st tr. Some (tr @ [st])) cfg p []"

fun block_of :: "stage \<Rightarrow> (bool \<times> int \<times> int) option" where
  "block_of (ProcessBlockIJ skipBoundsChecks query_start key_start) =
     Some (skipBoundsChecks, query_start, key_start)"
| "block_of _ = None"

definition blocks :: "stage list \<Rightarrow> (bool \<times> int \<times> int) list" where
  "blocks tr = List.map_filter block_of tr"

text \<open>
  The schedule as the specification states it: the tile starts \<open>0, tile, 2 * tile, \<dots>\<close>
  below a length, and the pairs of a key-tile start (outer) and a query-tile start
  (inner) in nested order.
\<close>

definition tile_starts :: "int \<Rightarrow> int \<Rightarrow> int list" where
  "tile_starts len tile = map (\<lambda>j. int j * tile) [0..<nat ((len + tile - 1) div tile)]"

definition tile_pairs :: "config \<Rightarrow> Params \<Rightarrow> (int \<times> int) list" where
  "tile_pairs cfg p =
     concat (map (\<lambda>key_start. map (\<lambda>query_start. (key_start, query_start))
                    (tile_starts (num_queries p) (kBlockSizeI cfg)))
                 (tile_starts (num_keys p) (kBlockSizeJ cfg)))"

text \<open>The stages of a run, in order, as lists.\<close>

definition delta_stages :: "config \<Rightarrow> Params \<Rightarrow> stage list" where
  "delta_stages cfg p =
     (if kKernelComputesDelta cfg
      then map (ComputeDelta (if head_dim_value p smod (128 sdiv sizeof_bits (scalar_t cfg)) = 0
                              then 128 sdiv sizeof_bits (scalar_t cfg) else 1))
             (tile_starts (num_queries p) (kBlockSizeI cfg)) @ [SyncThreads]
      else [])"

definition flush_stages :: "config \<Rightarrow> Params \<Rightarrow> bool \<Rightarrow> int \<Rightarrow> stage list" where
  "flush_stages cfg p skipBoundsChecks key_start =
     (if kOutputInRF cfg then [WriteFragsToGmem skipBoundsChecks key_start]
      else if num_queries p \<le> 0 then [ZfillGradKV skipBoundsChecks key_start] else [])"

definition full_key_tile_stages :: "config \<Rightarrow> Params \<Rightarrow> int \<Rightarrow> stage list" where
  "full_key_tile_stages cfg p key_start =
     (let query_end = num_queries p div kBlockSizeI cfg * kBlockSizeI cfg in
      [ClearOutputFrags] @
      map (\<lambda>query_start. ProcessBlockIJ True query_start key_start)
        (tile_starts query_end (kBlockSizeI cfg)) @
      (if query_end < num_queries p then [ProcessBlockIJ False query_end key_start] else []) @
      flush_stages cfg p True key_start @ [SyncThreads])"

definition last_key_tile_stages :: "config \<Rightarrow> Params \<Rightarrow> int \<Rightarrow> stage list" where
  "last_key_tile_stages cfg p key_start =
      [ClearOutputFrags] @
      map (\<lambda>query_start. ProcessBlockIJ False query_start key_start)
        (tile_starts (num_queries p) (kBlockSizeI cfg)) @
      flush_stages cfg p False key_start"

definition schedule :: "config \<Rightarrow> Params \<Rightarrow> stage list" where
  "schedule cfg p =
     (let key_end = num_keys p div kBlockSizeJ cfg * kBlockSizeJ cfg in
      (if kPrologueQK cfg then [PrologueQkNextIteration True 0 0] else []) @
      delta_stages cfg p @
      concat (map (full_key_tile_stages cfg p) (tile_starts key_end (kBlockSizeJ cfg))) @
      (if key_end \<noteq> num_keys p then last_key_tile_stages cfg p key_end else []))"

subsection \<open>Threads of a block and zfillGradKV\<close>

text \<open>
  A stage of the kernel is run by every thread of the block. \<^verbatim>\<open>attention_kernel\<close>
  gives thread \<^verbatim>\<open>threadIdx.x\<close> the ids \<^verbatim>\<open>warp_id = thread_id / 32\<close> and
  \<^verbatim>\<open>lane_id = thread_id % 32\<close>. A block is embedded as its threads run one after
  the other in some order \<open>order\<close> of the thread ids; the properties proved of a block
  hold for every order.
\<close>

definition run_block :: "(int \<Rightarrow> int \<Rightarrow> 's \<Rightarrow> 's option) \<Rightarrow> int list \<Rightarrow> 's \<Rightarrow> 's option" where
  "run_block f order s =
     run_list (\<lambda>thread_id. f (thread_id sdiv 32) (thread_id smod 32)) order s"

definition thread_order :: "config \<Rightarrow> int list \<Rightarrow> bool" where
  "thread_order cfg order = (set order = {0..<kNumThreads cfg})"

definition kThreadsPerKey :: int where
  "kThreadsPerKey = 8"

definition kParallelKeys :: "config \<Rightarrow> int" where
  "kParallelKeys cfg = kNumThreads cfg sdiv kThreadsPerKey"

text \<open>
  \<^verbatim>\<open>for (int k = k_shift; k < n; k += kThreadsPerKey) { ptr[k] = scalar_t(0); }\<close>
  on the heap \<open>h\<close> of \<^verbatim>\<open>scalar_t\<close> elements.
\<close>

definition zfill_row :: "int \<Rightarrow> int \<Rightarrow> int \<Rightarrow> (int \<Rightarrow> 's::zero) \<Rightarrow> (int \<Rightarrow> 's) option" where
  "zfill_row ptr k_shift n h =
     map_option snd (for_loop k_shift n kThreadsPerKey (\<lambda>k h. Some (h(ptr + k := 0))) h)"

definition zfillGradKV ::
  "config \<Rightarrow> bool \<Rightarrow> Params \<Rightarrow> int \<Rightarrow> int \<Rightarrow> int \<Rightarrow> (int \<Rightarrow> 's::zero) \<Rightarrow> (int \<Rightarrow> 's) option" where
  "zfillGradKV cfg skipBoundsChecks p key_start warp_id lane_id h =
     (let thread_id = 32 * warp_id + lane_id;
          k_shift = lane_id smod kThreadsPerKey
      in map_option snd (for_loop 0 (kBlockSizeJ cfg) (kParallelKeys cfg)
        (\<lambda>j h.
           let key = key_start + j + thread_id sdiv kThreadsPerKey in
           if \<not> skipBoundsChecks \<and> key \<ge> num_keys p then Some h
           else
             let gv_ptr = grad_value_ptr p + key * gV_strideM p;
                 gk_ptr = grad_key_ptr p + key * gK_strideM p
             in do {
               h1 \<leftarrow> zfill_row gv_ptr k_shift (head_dim_value p) h;
               zfill_row gk_ptr k_shift (head_dim p) h1
             }) h))"

text \<open>A heap with the addresses of a set overwritten by zero.\<close>

definition zero_at :: "int set \<Rightarrow> (int \<Rightarrow> 's::zero) \<Rightarrow> (int \<Rightarrow> 's)" where
  "zero_at A h = (\<lambda>a. if a \<in> A then 0 else h a)"

text \<open>The addresses one thread of \<^verbatim>\<open>zfillGradKV\<close> writes.\<close>

definition zfill_writes :: "config \<Rightarrow> bool \<Rightarrow> Params \<Rightarrow> int \<Rightarrow> int \<Rightarrow> int \<Rightarrow> int set" where
  "zfill_writes cfg skipBoundsChecks p key_start warp_id lane_id =
     (\<Union>j \<in> set (steps 0 (kBlockSizeJ cfg) (kParallelKeys cfg)).
        let key = key_start + j + (32 * warp_id + lane_id) sdiv kThreadsPerKey in
        if \<not> skipBoundsChecks \<and> key \<ge> num_keys p then {}
        else (\<lambda>k. grad_value_ptr p + key * gV_strideM p + k) `
               set (steps (lane_id smod kThreadsPerKey) (head_dim_value p) kThreadsPerKey) \<union>
             (\<lambda>k. grad_key_ptr p + key * gK_strideM p + k) `
               set (steps (lane_id smod kThreadsPerKey) (head_dim p) kThreadsPerKey))"

text \<open>Example inputs: a float kernel with a long feature dimension, and no queries.\<close>

definition params_no_queries :: Params where
  "params_no_queries = params_small \<lparr> num_queries := 0, num_keys := 70 \<rparr>"

subsection \<open>Tiles, shared storage and the external engines\<close>

text \<open>
  An accumulator fragment (\<^verbatim>\<open>Mma::FragmentC\<close>) is spread over the threads of the
  block; the lambda iterators of the source address its elements by their tile
  coordinates \<^verbatim>\<open>(accum_m, accum_n)\<close>. It is embedded as the tile it holds, a function
  of the coordinates, and an \<^verbatim>\<open>iterateRows\<close> over it as the same operation on every
  element. A tile in shared memory (\<^verbatim>\<open>AccumulatorSharedStorage\<close>) holds
  \<^verbatim>\<open>scalar_t\<close> elements, read with \<^verbatim>\<open>accum_ref().at({row, col})\<close>.
\<close>

type_synonym accum_tile = "int \<Rightarrow> int \<Rightarrow> real"

type_synonym 's smem_tile = "int \<Rightarrow> int \<Rightarrow> 's"

text \<open>The conversions \<^verbatim>\<open>accum_t(x)\<close> and \<^verbatim>\<open>scalar_t(x)\<close> of the source.\<close>

record 's numeric =
  accum_of :: "'s \<Rightarrow> real"
  scalar_of :: "real \<Rightarrow> 's"

text \<open>
  The fields of \<^verbatim>\<open>SharedStorage\<close> that the stages below read or write. The two
  layouts of the source overlap fields of different phases in unions; a field is
  embedded as the value its last writer left. The fields \<^verbatim>\<open>tmp_shared_storage\<close>
  and \<^verbatim>\<open>tmpT_shared_storage\<close>, which are written and read in the same phase, are
  stored through \<open>store_tmp\<close> and \<open>store_tmpT\<close> below.
\<close>

record 's shared_storage =
  di :: "int \<Rightarrow> real"
  bias :: "int \<Rightarrow> int \<Rightarrow> real"
  attn_shared_storage :: "'s smem_tile"
  zij :: "'s smem_tile"
  tmp_shared_storage :: "'s smem_tile"
  tmpT_shared_storage :: "'s smem_tile"

text \<open>
  In \<^verbatim>\<open>SharedStorageNoPrologue\<close> the tiles \<^verbatim>\<open>tmpT_shared_storage\<close> and
  \<^verbatim>\<open>tmp_shared_storage\<close> are two members of a struct. In
  \<^verbatim>\<open>SharedStoragePrologue\<close>, the layout of a kernel with \<^verbatim>\<open>kPreload\<close>, they
  are the two members of one union: a store to either leaves in the other the same
  buffer. \<^verbatim>\<open>AccumulatorSharedStorage\<close> is defined outside the sources
  (gemm/mma\_from\_smem.h); its buffer is taken as packed and row major, the element
  \<open>(row, col)\<close> of a tile of \<open>cols\<close> columns at offset \<open>row * cols + col\<close>. The
  tile \<^verbatim>\<open>tmp_shared_storage\<close> of \<^verbatim>\<open>MatmulDOIVJ\<close> has \<^verbatim>\<open>kBlockSizeJ\<close> columns
  and the tile \<^verbatim>\<open>tmpT_shared_storage\<close> of \<^verbatim>\<open>MatmulQK\<close> has \<^verbatim>\<open>kBlockSizeI\<close>.
  \<open>union_view\<close> is a tile written with one row length and read with another.
\<close>

definition union_view :: "int \<Rightarrow> int \<Rightarrow> 's smem_tile \<Rightarrow> 's smem_tile" where
  "union_view cols_written cols_read tile =
     (\<lambda>row col. tile ((row * cols_read + col) sdiv cols_written)
                      ((row * cols_read + col) smod cols_written))"

definition store_tmpT :: "config \<Rightarrow> 's smem_tile \<Rightarrow> 's shared_storage \<Rightarrow> 's shared_storage" where
  "store_tmpT cfg tile ss =
     (if kPreload cfg
      then ss \<lparr> tmpT_shared_storage := tile,
                tmp_shared_storage := union_view (kBlockSizeI cfg) (kBlockSizeJ cfg) tile \<rparr>
      else ss \<lparr> tmpT_shared_storage := tile \<rparr>)"

definition store_tmp :: "config \<Rightarrow> 's smem_tile \<Rightarrow> 's shared_storage \<Rightarrow> 's shared_storage" where
  "store_tmp cfg tile ss =
     (if kPreload cfg
      then ss \<lparr> tmp_shared_storage := tile,
                tmpT_shared_storage := union_view (kBlockSizeJ cfg) (kBlockSizeI cfg) tile \<rparr>
      else ss \<lparr> tmp_shared_storage := tile \<rparr>)"

text \<open>
  Modelled from the spec: the tiled matrix-multiply engine is outside the sources
  (gemm/custom\_mma.h, gemm/mma\_from\_smem.h and CUTLASS). Given two operand iterators it
  returns the accumulator plus the product of the operands over the reduction dimension
  of length \<open>K\<close>. A predicated tile iterator over global memory reads
  \<^verbatim>\<open>ptr[row * stride + col]\<close> (row major) or \<^verbatim>\<open>ptr[col * stride + row]\<close>
  (column major) inside its extent and contributes zero outside it.
\<close>

definition mma :: "int \<Rightarrow> (int \<Rightarrow> int \<Rightarrow> real) \<Rightarrow> (int \<Rightarrow> int \<Rightarrow> real) \<Rightarrow> accum_tile \<Rightarrow> accum_tile" where
  "mma K A B accum = (\<lambda>m n. accum m n + (\<Sum>f\<leftarrow>[0..K - 1]. A m f * B f n))"

definition iterator_row_major ::
  "'s numeric \<Rightarrow> (int \<Rightarrow> 's) \<Rightarrow> int \<Rightarrow> int \<Rightarrow> int \<times> int \<Rightarrow> int \<Rightarrow> int \<Rightarrow> real" where
  "iterator_row_major nm heap stride ptr extent =
     (\<lambda>row col. if 0 \<le> row \<and> row < fst extent \<and> 0 \<le> col \<and> col < snd extent
                then accum_of nm (heap (ptr + row * stride + col)) else 0)"

definition iterator_column_major ::
  "'s numeric \<Rightarrow> (int \<Rightarrow> 's) \<Rightarrow> int \<Rightarrow> int \<Rightarrow> int \<times> int \<Rightarrow> int \<Rightarrow> int \<Rightarrow> real" where
  "iterator_column_major nm heap stride ptr extent =
     (\<lambda>row col. if 0 \<le> row \<and> row < fst extent \<and> 0 \<le> col \<and> col < snd extent
                then accum_of nm (heap (ptr + col * stride + row)) else 0)"

text \<open>
  Modelled from the spec: \<^verbatim>\<open>B2bGemm::accumApplyLSEToSmem\<close> and
  \<^verbatim>\<open>B2bGemm::accumToSmem\<close> are defined in gemm/mma\_from\_smem.h, which is not among
  the sources. The first stores \<open>exp (accum - logSumExp[query])\<close> to the shared tile,
  the query being the column of the transposed tile (the comment at its call:
  \<^verbatim>\<open>shmem <- (matmul_result - logsumexp[i_start:i_end].unsqueeze(1)).exp()\<close>); the
  second stores the fragment as it is. Both convert to the element type of the tile.
\<close>

definition accumApplyLSEToSmem :: "'s numeric \<Rightarrow> accum_tile \<Rightarrow> (int \<Rightarrow> real) \<Rightarrow> 's smem_tile" where
  "accumApplyLSEToSmem nm accum lse = (\<lambda>m n. scalar_of nm (exp (accum m n - lse n)))"

definition accumToSmem :: "'s numeric \<Rightarrow> accum_tile \<Rightarrow> 's smem_tile" where
  "accumToSmem nm accum = (\<lambda>m n. scalar_of nm (accum m n))"

text \<open>
  The bias loader \<^verbatim>\<open>AttentionBiasEpilogue\<close> and the two bias-gradient epilogues
  (\<^verbatim>\<open>BiasGradEpilogueAffineRankN\<close>, \<^verbatim>\<open>BiasGradEpilogue\<close>) are defined outside
  the sources and are taken as parameters: the loader returns the tile it leaves in the
  shared \<^verbatim>\<open>bias\<close> buffer, from its two pointers, its extent and \<^verbatim>\<open>num_keys\<close>; an
  epilogue takes its destination pointer, its extent and the fragment, and updates the
  heap of \<^verbatim>\<open>accum_t\<close> elements (the second also takes the row stride
  \<^verbatim>\<open>num_keys\<close> of its iterator parameters).
\<close>

record 's engines =
  bias_epilogue :: "int \<Rightarrow> int \<Rightarrow> int \<times> int \<Rightarrow> int \<Rightarrow> (int \<Rightarrow> 's) \<Rightarrow> int \<Rightarrow> int \<Rightarrow> real"
  grad_bias1_epilogue :: "int \<Rightarrow> int \<times> int \<Rightarrow> accum_tile \<Rightarrow> (int \<Rightarrow> real) \<Rightarrow> (int \<Rightarrow> real)"
  grad_bias2_epilogue :: "int \<Rightarrow> int \<Rightarrow> int \<times> int \<Rightarrow> accum_tile \<Rightarrow> (int \<Rightarrow> real) \<Rightarrow> (int \<Rightarrow> real)"

subsection \<open>processBlockIJ\<close>

text \<open>
  \<^verbatim>\<open>loadDi\<close>, one thread: \<^verbatim>\<open>thread_id\<close> is \<^verbatim>\<open>threadIdx.x\<close>. The heap
  \<open>fheap\<close> holds the \<^verbatim>\<open>accum_t\<close> tensors (LogSumExp, delta, bias gradients).
\<close>

definition loadDi :: "config \<Rightarrow> Params \<Rightarrow> int \<Rightarrow> (int \<Rightarrow> real) \<Rightarrow> int \<Rightarrow> (int \<Rightarrow> real) \<Rightarrow> (int \<Rightarrow> real)" where
  "loadDi cfg p query_start fheap thread_id di_array =
     (if thread_id < kBlockSizeI cfg
      then di_array (thread_id :=
             (if query_start + thread_id < num_queries p
              then fheap (delta_ptr p + (query_start + thread_id)) else 0))
      else di_array)"

definition loadDi_block ::
  "config \<Rightarrow> Params \<Rightarrow> int \<Rightarrow> (int \<Rightarrow> real) \<Rightarrow> int list \<Rightarrow> 's shared_storage \<Rightarrow> 's shared_storage" where
  "loadDi_block cfg p query_start fheap order ss =
     ss \<lparr> di := fold (loadDi cfg p query_start fheap) order (di ss) \<rparr>"

text \<open>
  The MatmulQK block: \<open>attn_T = k_j @ q_i.transpose\<close>, the scale and the bias, and the
  epilogue that stores the weights to \<^verbatim>\<open>attn_shared_storage\<close>. The heap \<open>sheap\<close>
  holds the \<^verbatim>\<open>scalar_t\<close> tensors.
\<close>

definition MatmulQK_accum ::
  "'s numeric \<Rightarrow> config \<Rightarrow> Params \<Rightarrow> bool \<Rightarrow> int \<Rightarrow> int \<Rightarrow> (int \<Rightarrow> 's) \<Rightarrow> accum_tile" where
  "MatmulQK_accum nm cfg p skipBoundsChecks query_start key_start sheap =
     (let problem_size_m = num_keys_in_block cfg p skipBoundsChecks key_start;
          problem_size_n = num_queries_in_block cfg p skipBoundsChecks query_start;
          problem_size_k = head_dim p;
          iterator_A = iterator_row_major nm sheap (k_strideM p)
            (key_ptr p + key_start * k_strideM p) (problem_size_m, problem_size_k);
          iterator_B = iterator_column_major nm sheap (q_strideM p)
            (query_ptr p + query_start * q_strideM p) (problem_size_k, problem_size_n)
      in mma problem_size_k iterator_A iterator_B (\<lambda>m n. 0))"

definition MatmulQK_block ::
  "'s numeric \<Rightarrow> 's engines \<Rightarrow> config \<Rightarrow> Params \<Rightarrow> bool \<Rightarrow> int \<Rightarrow> int \<Rightarrow>
   (int \<Rightarrow> 's) \<Rightarrow> (int \<Rightarrow> real) \<Rightarrow> 's shared_storage \<Rightarrow> 's shared_storage" where
  "MatmulQK_block nm eng cfg p skipBoundsChecks query_start key_start sheap fheap ss =
     (let accum = MatmulQK_accum nm cfg p skipBoundsChecks query_start key_start sheap;
          ss1 = (if broadcast_1_kEnable cfg \<or> broadcast_2_kEnable cfg
                 then ss \<lparr> bias := bias_epilogue eng (bias1_ptr p + key_start)
                        (bias2_ptr p + query_start * num_keys p + key_start)
                        (num_queries_in_block cfg p skipBoundsChecks query_start,
                         num_keys_in_block cfg p skipBoundsChecks key_start)
                        (num_keys p) sheap \<rparr>
                 else ss);
          accum1 = (if broadcast_1_kEnable cfg \<or> broadcast_2_kEnable cfg
                    then (\<lambda>accum_m accum_n.
                            accum accum_m accum_n * scale p + bias ss1 accum_n accum_m)
                    else (\<lambda>accum_m accum_n. scale p * accum accum_m accum_n))
      in ss1 \<lparr> attn_shared_storage :=
           accumApplyLSEToSmem nm accum1 (\<lambda>n. fheap (logsumexp_ptr p + query_start + n)) \<rparr>)"

text \<open>
  The operand A of the GradV matmul: \<^verbatim>\<open>attn_shared_storage\<close>, scaled on the fly by
  the \<^verbatim>\<open>zij\<close> tile when \<^verbatim>\<open>kScaleOperandA = kApplyDropout\<close> (the comment of
  \<^verbatim>\<open>MatmulGradV\<close>: \<^verbatim>\<open>Pij_dropped.T = Pij.T * Zij\<close>).
\<close>

definition MatmulGradV_operandA :: "'s numeric \<Rightarrow> config \<Rightarrow> 's shared_storage \<Rightarrow> int \<Rightarrow> int \<Rightarrow> real" where
  "MatmulGradV_operandA nm cfg ss =
     (if kApplyDropout cfg
      then (\<lambda>m n. accum_of nm (attn_shared_storage ss m n) * accum_of nm (zij ss m n))
      else (\<lambda>m n. accum_of nm (attn_shared_storage ss m n)))"

text \<open>
  The MatmulDOIVJ block. \<open>MatmulDOIVJ_accum\<close> is \<open>doi_t_vj = do_i @ v_j.transpose\<close>;
  \<open>dSij\<close> is the fragment after the correction \<^verbatim>\<open>dSij = (dPij - Di) * Pij\<close>, which
  reads \<^verbatim>\<open>di\<close> and \<^verbatim>\<open>attn_shared_storage\<close>.
\<close>

definition MatmulDOIVJ_accum ::
  "'s numeric \<Rightarrow> config \<Rightarrow> Params \<Rightarrow> bool \<Rightarrow> int \<Rightarrow> int \<Rightarrow> (int \<Rightarrow> 's) \<Rightarrow> accum_tile" where
  "MatmulDOIVJ_accum nm cfg p skipBoundsChecks query_start key_start sheap =
     (let iterator_A = iterator_row_major nm sheap (gO_strideM p)
            (grad_output_ptr p + query_start * gO_strideM p)
            (num_queries_in_block cfg p skipBoundsChecks query_start, head_dim_value p);
          iterator_B = iterator_column_major nm sheap (v_strideM p)
            (value_ptr p + key_start * v_strideM p)
            (head_dim_value p, num_keys_in_block cfg p skipBoundsChecks key_start)
      in mma (head_dim_value p) iterator_A iterator_B (\<lambda>m n. 0))"

definition dSij ::
  "'s numeric \<Rightarrow> config \<Rightarrow> Params \<Rightarrow> bool \<Rightarrow> int \<Rightarrow> int \<Rightarrow> (int \<Rightarrow> 's) \<Rightarrow>
   's shared_storage \<Rightarrow> accum_tile" where
  "dSij nm cfg p skipBoundsChecks query_start key_start sheap ss =
     (let accum = MatmulDOIVJ_accum nm cfg p skipBoundsChecks query_start key_start sheap;
          attn_T = attn_shared_storage ss
      in (\<lambda>accum_m accum_n.
            let current_di = di ss accum_m in
            if skipBoundsChecks \<or>
               (accum_m < num_queries_in_block cfg p skipBoundsChecks query_start \<and>
                accum_n < num_keys_in_block cfg p skipBoundsChecks key_start)
            then (accum accum_m accum_n - current_di) * accum_of nm (attn_T accum_n accum_m)
            else 0))"

definition MatmulDOIVJ_block ::
  "'s numeric \<Rightarrow> 's engines \<Rightarrow> config \<Rightarrow> Params \<Rightarrow> bool \<Rightarrow> int \<Rightarrow> int \<Rightarrow>
   (int \<Rightarrow> 's) \<Rightarrow> (int \<Rightarrow> real) \<times> 's shared_storage \<Rightarrow> (int \<Rightarrow> real) \<times> 's shared_storage" where
  "MatmulDOIVJ_block nm eng cfg p skipBoundsChecks query_start key_start sheap st =
     (let fheap = fst st; ss = snd st;
          accum = dSij nm cfg p skipBoundsChecks query_start key_start sheap ss;
          extent = (num_queries_in_block cfg p skipBoundsChecks query_start,
                    num_keys_in_block cfg p skipBoundsChecks key_start);
          fheap1 = (if broadcast_1_kEnable cfg \<and> grad_bias1_ptr p \<noteq> 0
                    then grad_bias1_epilogue eng (grad_bias1_ptr p + key_start) extent accum fheap
                    else fheap);
          fheap2 = (if broadcast_2_kEnable cfg \<and> grad_bias2_ptr p \<noteq> 0
                    then grad_bias2_epilogue eng (num_keys p)
                           (grad_bias2_ptr p + query_start * num_keys p + key_start)
                           extent accum fheap1
                    else fheap1);
          accum1 = (\<lambda>accum_m accum_n. accum accum_m accum_n * scale p);
          ss1 = (if \<not> kIsTransposedA cfg
                 then store_tmpT cfg
                        (\<lambda>accum_n accum_m. scalar_of nm (accum1 accum_m accum_n)) ss
                 else ss)
      in (fheap2, store_tmp cfg (accumToSmem nm accum1) ss1))"

text \<open>
  The operand A of the GradQ matmul is \<^verbatim>\<open>tmp_shared_storage\<close>. The operand A of the
  GradK matmul is \<^verbatim>\<open>opA = kIsTransposedA ? getTmp() : getTmpT()\<close>: the transposing
  engine reads \<^verbatim>\<open>tmp_shared_storage\<close> through a transposed warp iterator, the other
  reads \<^verbatim>\<open>tmpT_shared_storage\<close> as it is. Both are given by key row and query column.
\<close>

definition MatmulGradQ_operandA :: "'s shared_storage \<Rightarrow> 's smem_tile" where
  "MatmulGradQ_operandA ss = tmp_shared_storage ss"

definition MatmulGradK_operandA :: "config \<Rightarrow> 's shared_storage \<Rightarrow> 's smem_tile" where
  "MatmulGradK_operandA cfg ss =
     (if kIsTransposedA cfg then (\<lambda>n m. tmp_shared_storage ss m n)
      else tmpT_shared_storage ss)"


text \<open>Example inputs for the tile stages: exact conversions, and engines that do nothing.\<close>

definition nm_exact :: "real numeric" where
  "nm_exact = \<lparr> accum_of = (\<lambda>x. x), scalar_of = (\<lambda>x. x) \<rparr>"

definition eng_none :: "real engines" where
  "eng_none = \<lparr> bias_epilogue = (\<lambda>b1 b2 extent nk heap m n. 0),
     grad_bias1_epilogue = (\<lambda>dst extent accum heap. heap),
     grad_bias2_epilogue = (\<lambda>nk dst extent accum heap. heap) \<rparr>"

definition ss_init :: "real shared_storage" where
  "ss_init = \<lparr> di = (\<lambda>m. 0), bias = (\<lambda>m n. 0), attn_shared_storage = (\<lambda>m n. 0),
     zij = (\<lambda>m n. 0), tmp_shared_storage = (\<lambda>m n. 0), tmpT_shared_storage = (\<lambda>m n. 0) \<rparr>"

text \<open>
  The tensors as the specification names them, read from the heaps through the pointers
  and row strides of \<open>Params\<close>, and the two matrix products of a tile over the
  feature dimension.
\<close>

definition Key :: "'s numeric \<Rightarrow> Params \<Rightarrow> (int \<Rightarrow> 's) \<Rightarrow> int \<Rightarrow> int \<Rightarrow> real" where
  "Key nm p sheap row f = accum_of nm (sheap (key_ptr p + row * k_strideM p + f))"

definition Query :: "'s numeric \<Rightarrow> Params \<Rightarrow> (int \<Rightarrow> 's) \<Rightarrow> int \<Rightarrow> int \<Rightarrow> real" where
  "Query nm p sheap row f = accum_of nm (sheap (query_ptr p + row * q_strideM p + f))"

definition Value :: "'s numeric \<Rightarrow> Params \<Rightarrow> (int \<Rightarrow> 's) \<Rightarrow> int \<Rightarrow> int \<Rightarrow> real" where
  "Value nm p sheap row f = accum_of nm (sheap (value_ptr p + row * v_strideM p + f))"

definition OutputGradient :: "'s numeric \<Rightarrow> Params \<Rightarrow> (int \<Rightarrow> 's) \<Rightarrow> int \<Rightarrow> int \<Rightarrow> real" where
  "OutputGradient nm p sheap row f =
     accum_of nm (sheap (grad_output_ptr p + row * gO_strideM p + f))"


definition logSumExp :: "Params \<Rightarrow> (int \<Rightarrow> real) \<Rightarrow> int \<Rightarrow> real" where
  "logSumExp p fheap row = fheap (logsumexp_ptr p + row)"

definition delta :: "Params \<Rightarrow> (int \<Rightarrow> real) \<Rightarrow> int \<Rightarrow> real" where
  "delta p fheap row = fheap (delta_ptr p + row)"

definition rawScore :: "'s numeric \<Rightarrow> Params \<Rightarrow> (int \<Rightarrow> 's) \<Rightarrow> int \<Rightarrow> int \<Rightarrow> real" where
  "rawScore nm p sheap key query =
     (\<Sum>f\<leftarrow>[0..head_dim p - 1]. Key nm p sheap key f * Query nm p sheap query f)"

definition rawGrad :: "'s numeric \<Rightarrow> Params \<Rightarrow> (int \<Rightarrow> 's) \<Rightarrow> int \<Rightarrow> int \<Rightarrow> real" where
  "rawGrad nm p sheap query key =
     (\<Sum>f\<leftarrow>[0..head_dim_value p - 1].
        OutputGradient nm p sheap query f * Value nm p sheap key f)"

text \<open>
  The head of \<^verbatim>\<open>processBlockIJ\<close>, \<^verbatim>\<open>loadDi\<close> and the MatmulQK block, and the
  function up to the end of the MatmulDOIVJ block. The GradV matmul between the two
  reads \<^verbatim>\<open>attn_shared_storage\<close> and \<^verbatim>\<open>zij\<close> and writes none of the fields
  embedded here; the accumulation of the three gradients into the output tensors and
  the workspace is not embedded.
\<close>

definition processBlockIJ_QK ::
  "'s numeric \<Rightarrow> 's engines \<Rightarrow> config \<Rightarrow> Params \<Rightarrow> bool \<Rightarrow> int \<Rightarrow> int \<Rightarrow> int list \<Rightarrow>
   (int \<Rightarrow> 's) \<Rightarrow> (int \<Rightarrow> real) \<Rightarrow> 's shared_storage \<Rightarrow> 's shared_storage" where
  "processBlockIJ_QK nm eng cfg p skipBoundsChecks query_start key_start order sheap fheap ss =
     MatmulQK_block nm eng cfg p skipBoundsChecks query_start key_start sheap fheap
       (loadDi_block cfg p query_start fheap order ss)"

definition processBlockIJ_DOIVJ ::
  "'s numeric \<Rightarrow> 's engines \<Rightarrow> config \<Rightarrow> Params \<Rightarrow> bool \<Rightarrow> int \<Rightarrow> int \<Rightarrow> int list \<Rightarrow>
   (int \<Rightarrow> 's) \<Rightarrow> (int \<Rightarrow> real) \<times> 's shared_storage \<Rightarrow> (int \<Rightarrow> real) \<times> 's shared_storage" where
  "processBlockIJ_DOIVJ nm eng cfg p skipBoundsChecks query_start key_start order sheap st =
     MatmulDOIVJ_block nm eng cfg p skipBoundsChecks query_start key_start sheap
       (fst st, processBlockIJ_QK nm eng cfg p skipBoundsChecks query_start key_start order
                  sheap (fst st) (snd st))"

text \<open>
  Further example inputs: a kernel with the second bias enabled, an epilogue that stores
  the first element of the fragment at its destination, a preloading kernel, and a
  shared storage whose attention tile is all ones.
\<close>

definition cfg_bias2 :: config where
  "cfg_bias2 = cfg_half \<lparr> broadcast_2_kEnable := True \<rparr>"

definition params_bias2 :: Params where
  "params_bias2 = params_small \<lparr> grad_bias2_ptr := 2048 \<rparr>"

definition eng_store :: "real engines" where
  "eng_store = \<lparr> bias_epilogue = (\<lambda>b1 b2 extent nk heap m n. 0),
     grad_bias1_epilogue = (\<lambda>dst extent accum heap. heap(dst := accum 0 0)),
     grad_bias2_epilogue = (\<lambda>nk dst extent accum heap. heap(dst := accum 0 0)) \<rparr>"


definition ss_ones :: "real shared_storage" where
  "ss_ones = ss_init \<lparr> attn_shared_storage := (\<lambda>m n. 1) \<rparr>"


subsection \<open>computeDelta\<close>

unbundle bit_operations_syntax

















text \<open>
  Example inputs for dropout: the kernel instantiated with \<^verbatim>\<open>kApplyDropout\<close>, and a
  dropout probability of one half.
\<close>

definition cfg_dropout :: config where
  "cfg_dropout = cfg_half \<lparr> kApplyDropout := True \<rparr>"

definition params_dropout :: Params where
  "params_dropout = params_small \<lparr> dropout_prob := 1 / 2 \<rparr>"

section \<open>Launch-time validation\<close>

lemma EVOFORMER_CHECKS_true:
  "EVOFORMER_CHECKS cs = Inr True \<longleftrightarrow> (\<forall>c \<in> set cs. fst c)"
  by (induction cs rule: EVOFORMER_CHECKS.induct) auto

lemma EVOFORMER_CHECKS_result:
  "EVOFORMER_CHECKS cs = Inr True \<or> (\<exists>c \<in> set cs. \<not> fst c \<and> EVOFORMER_CHECKS cs = Inl (snd c))"
  by (induction cs rule: EVOFORMER_CHECKS.induct) auto

lemma supported_checks_all:
  "(\<forall>c \<in> set (supported_checks cfg p). fst c) \<longleftrightarrow>
     (listed_preconditions cfg p \<and> head_batch_strides_aligned cfg p)"
  unfolding supported_checks_def listed_preconditions_def head_batch_strides_aligned_def
  by (simp only: list.set ball_simps fst_conv) blast

text \<open>
  C8, as amended. \<open>check_supported\<close> succeeds exactly when the listed preconditions
  hold and, in addition, the head strides (for more than one head) and the batch strides
  (for more than one batch) of query, key and value are aligned; otherwise it returns the
  message of a check that is violated.
\<close>

theorem check_supported_iff:
  "(check_supported cfg p = Inr True \<longleftrightarrow>
      listed_preconditions cfg p \<and> head_batch_strides_aligned cfg p) \<and>
   (check_supported cfg p = Inr True \<or>
      (\<exists>c \<in> set (supported_checks cfg p). \<not> fst c \<and> check_supported cfg p = Inl (snd c)))"
  unfolding check_supported_def
  using EVOFORMER_CHECKS_true [of "supported_checks cfg p"]
    EVOFORMER_CHECKS_result [of "supported_checks cfg p"]
    supported_checks_all [of cfg p]
  by blast

theorem check_supported_iff_witness:
  "listed_preconditions cfg_half params_small \<and>
   head_batch_strides_aligned cfg_half params_small \<and>
   check_supported cfg_half params_small = Inr True"
proof -
  have l: "listed_preconditions cfg_half params_small"
    by (simp add: listed_preconditions_def ALIGNED_PTR_def cfg_half_def params_small_def
        signed_modulo_int_def)
  have h: "head_batch_strides_aligned cfg_half params_small"
    by (simp add: head_batch_strides_aligned_def cfg_half_def params_small_def
        signed_modulo_int_def)
  from l h check_supported_iff [of cfg_half params_small] show ?thesis by blast
qed

text \<open>
  C8 as stated fails: with two heads and a query head stride of 4 elements (alignment 8)
  every listed precondition holds, and the function reports a failure.
\<close>

theorem check_supported_listed_counterexample:
  "listed_preconditions cfg_half (params_small\<lparr>q_strideH := 4\<rparr>) \<and>
   check_supported cfg_half (params_small\<lparr>q_strideH := 4\<rparr>) =
     Inl ''query is not correctly aligned (strideH)''"
  by (simp add: listed_preconditions_def check_supported_def supported_checks_def
      ALIGNED_PTR_def cfg_half_def params_small_def signed_modulo_int_def)

section \<open>Workspace sizes\<close>

lemma sdiv_nonneg: "0 \<le> a \<Longrightarrow> 0 < b \<Longrightarrow> a sdiv b = a div (b::int)"
  by (cases "a = 0") (simp_all add: signed_divide_int_def)

lemma smod_nonneg: "0 \<le> a \<Longrightarrow> 0 < b \<Longrightarrow> a smod b = a mod (b::int)"
  by (cases "a = 0") (simp_all add: signed_modulo_int_def)

lemma chk_Some: "0 \<le> x \<Longrightarrow> x < 2 ^ (w - 1) \<Longrightarrow> chk w x = Some x"
  by (simp add: chk_def fits_def)

lemma align_up_c_eq:
  assumes "0 \<le> n" "0 < m" "n + m < 2 ^ (w - 1)"
  shows "align_up_c w n m = Some (align_up n m)"
proof -
  define q where "q = (n + m - 1) div m"
  have d: "(n + m - 1) sdiv m = q"
    unfolding q_def using assms by (intro sdiv_nonneg) auto
  have q0: "0 \<le> q" unfolding q_def using assms by (simp add: pos_imp_zdiv_nonneg_iff)
  have "q * m + (n + m - 1) mod m = n + m - 1"
    unfolding q_def by simp
  moreover have "0 \<le> (n + m - 1) mod m" using assms by simp
  ultimately have le: "q * m \<le> n + m - 1" by linarith
  have "q * 1 \<le> q * m" using q0 assms by (intro mult_left_mono) auto
  then have q1: "q \<le> n + m - 1" using le by simp
  have qm0: "0 \<le> q * m" using q0 assms by simp
  have c1: "chk w (n + m) = Some (n + m)" using assms by (intro chk_Some) auto
  have c2: "chk w (n + m - 1) = Some (n + m - 1)" using assms by (intro chk_Some) auto
  have c3: "chk w q = Some q" using assms q0 q1 by (intro chk_Some) auto
  have c4: "chk w (q * m) = Some (q * m)" using assms qm0 le by (intro chk_Some) auto
  have "align_up n m = q * m" by (simp add: align_up_def q_def)
  then show ?thesis
    using assms(2) d c1 c2 c3 c4 by (simp add: align_up_c_def)
qed

lemma align_up_bounds:
  assumes "0 \<le> n" "0 < m"
  shows "n \<le> align_up n m" "align_up n m < n + m" "0 \<le> align_up n m"
proof -
  define q where "q = (n + m - 1) div m"
  have e: "q * m + (n + m - 1) mod m = n + m - 1"
    unfolding q_def by simp
  have "0 \<le> (n + m - 1) mod m" "(n + m - 1) mod m < m" using assms by simp_all
  then have "q * m \<le> n + m - 1" "n \<le> q * m" using e by linarith+
  then show "n \<le> align_up n m" "align_up n m < n + m" "0 \<le> align_up n m"
    using assms by (simp_all add: align_up_def q_def)
qed

lemma elements_prod:
  assumes "0 \<le> n" "0 < m" "n + m < 2 ^ 31" "0 \<le> n'" "0 < m'" "n' + m' < 2 ^ 31"
    "align_up n m * align_up n' m' < 2 ^ 31"
  shows "do { a \<leftarrow> align_up_c 32 n m; b \<leftarrow> align_up_c 32 n' m'; chk 32 (a * b) }
           = Some (align_up n m * align_up n' m')"
proof -
  have "0 \<le> align_up n m * align_up n' m'"
    using assms align_up_bounds(3) [of n m] align_up_bounds(3) [of n' m'] by simp
  then show ?thesis
    using assms by (simp add: align_up_c_eq chk_Some)
qed

lemma gk_eq: "workspace_in_range cfg p \<Longrightarrow> workspace_elements_gk cfg p = Some (E_gk cfg p)"
  unfolding workspace_elements_gk_def E_gk_def workspace_in_range_def
  by (simp add: elements_prod)

lemma gv_eq: "workspace_in_range cfg p \<Longrightarrow> workspace_elements_gv cfg p = Some (E_gv cfg p)"
  unfolding workspace_elements_gv_def E_gv_def workspace_in_range_def
  by (simp add: elements_prod)

lemma gq_eq: "workspace_in_range cfg p \<Longrightarrow> workspace_elements_gq cfg p = Some (E_gq cfg p)"
  unfolding workspace_elements_gq_def E_gq_def workspace_in_range_def
  by (auto simp add: elements_prod)

lemma E_range:
  assumes "workspace_in_range cfg p"
  shows "0 \<le> E_gk cfg p" "E_gk cfg p < 2 ^ 31" "0 \<le> E_gv cfg p" "E_gv cfg p < 2 ^ 31"
    "0 \<le> E_gq cfg p" "E_gq cfg p < 2 ^ 31"
  using assms align_up_bounds(3)
  unfolding workspace_in_range_def E_gk_def E_gv_def E_gq_def
  by (auto)

lemma strideBH_eq:
  assumes "workspace_in_range cfg p"
  shows "workspace_strideBH cfg p = Some (align_up (E_gk cfg p + E_gv cfg p + E_gq cfg p) 4)"
proof -
  note r = E_range [OF assms]
  have c1: "chk 64 (E_gk cfg p + E_gv cfg p) = Some (E_gk cfg p + E_gv cfg p)"
    using r by (intro chk_Some) auto
  have c2: "chk 64 (E_gk cfg p + E_gv cfg p + E_gq cfg p) = Some (E_gk cfg p + E_gv cfg p + E_gq cfg p)"
    using r by (intro chk_Some) auto
  have c3: "align_up_c 64 (E_gk cfg p + E_gv cfg p + E_gq cfg p) 4
      = Some (align_up (E_gk cfg p + E_gv cfg p + E_gq cfg p) 4)"
    using r by (intro align_up_c_eq) auto
  show ?thesis
    unfolding workspace_strideBH_def
    by (simp add: gk_eq [OF assms] gv_eq [OF assms] gq_eq [OF assms] c1 c2 c3)
qed

text \<open>
  On the inputs on which no operation overflows, \<open>workspace_size\<close> returns
  \<open>num_batches * num_heads * align_up (E_gk + E_gv + E_gq) 4 * sizeof(float)\<close> with the
  three plane sizes of the specification; and it returns 0 when no \<open>kNeedsAccum\<close> flag
  is set (which the float kernel is an instance of).
\<close>

theorem workspace_size_formula:
  "(workspace_in_range cfg p \<longrightarrow> workspace_size cfg p = Some (workspace_size_spec cfg p)) \<and>
   (\<not> kNeedsAccumGradK cfg \<and> \<not> kNeedsAccumGradV cfg \<and> \<not> kNeedsAccumGradQ cfg \<and>
    fits 32 (num_batches p * num_heads p) \<longrightarrow> workspace_size cfg p = Some 0)"
proof (intro conjI impI)
  assume a: "workspace_in_range cfg p"
  note r = E_range [OF a]
  define S where "S = align_up (E_gk cfg p + E_gv cfg p + E_gq cfg p) 4"
  define bh where "bh = num_batches p * num_heads p"
  have S: "0 \<le> S" "S < 3 * 2 ^ 31 + 4"
    using r align_up_bounds [of "E_gk cfg p + E_gv cfg p + E_gq cfg p" 4]
    unfolding S_def by auto
  have bh: "0 < bh" "bh < 2 ^ 31"
    using a unfolding bh_def workspace_in_range_def by auto
  have c0: "chk 32 bh = Some bh" using bh by (intro chk_Some) auto
  define X where "X = bh * S"
  have "workspace_size_spec cfg p = X * 4"
    by (simp add: workspace_size_spec_def X_def bh_def S_def)
  then have "X * 4 < 2 ^ 63"
    using a unfolding workspace_in_range_def by simp
  then have ub: "X < 2 ^ 61" by simp
  have lb: "0 \<le> X" using bh S by (simp add: X_def)
  have c1: "chk 64 X = Some X" using ub lb by (intro chk_Some) auto
  have m1: "X mod 2 ^ 64 = X"
    using ub lb by (intro mod_pos_pos_trivial) auto
  have m2: "(X * 4) mod 2 ^ 64 = X * 4"
    using ub lb by (intro mod_pos_pos_trivial) auto
  have "to_int64 (to_uint64 X * sizeof_float) = X * 4"
    unfolding to_int64_def to_uint64_def sizeof_float_def m1 m2 using ub by simp
  then show "workspace_size cfg p = Some (workspace_size_spec cfg p)"
    unfolding workspace_size_def
    using c0 c1 strideBH_eq [OF a] \<open>workspace_size_spec cfg p = X * 4\<close>
    by (simp add: S_def [symmetric] bh_def [symmetric] X_def [symmetric])
next
  assume "\<not> kNeedsAccumGradK cfg \<and> \<not> kNeedsAccumGradV cfg \<and> \<not> kNeedsAccumGradQ cfg \<and>
    fits 32 (num_batches p * num_heads p)"
  then show "workspace_size cfg p = Some 0"
    by (simp add: workspace_size_def workspace_strideBH_def workspace_elements_gk_def
        workspace_elements_gv_def workspace_elements_gq_def chk_def fits_def align_up_c_def
        to_int64_def to_uint64_def sizeof_float_def signed_divide_int_def)
qed

theorem workspace_size_formula_witness:
  "workspace_in_range cfg_half params_two_tiles \<and>
   workspace_size cfg_half params_two_tiles = Some 196608 \<and>
   \<not> kNeedsAccumGradK cfg_float \<and> \<not> kNeedsAccumGradV cfg_float \<and>
   \<not> kNeedsAccumGradQ cfg_float \<and>
   fits 32 (num_batches params_two_tiles * num_heads params_two_tiles) \<and>
   workspace_size cfg_float params_two_tiles = Some 0"
proof -
  have e: "workspace_size_spec cfg_half params_two_tiles = 196608"
    by (simp add: workspace_size_spec_def E_gk_def E_gv_def E_gq_def align_up_def
        kNeedsAccumGradK_def kNeedsAccumGradV_def kNeedsAccumGradQ_def kOutputInRF_def
        kIsHalf_def output_is_accum_def cfg_half_def params_two_tiles_def params_small_def)
  have r: "workspace_in_range cfg_half params_two_tiles"
    unfolding workspace_in_range_def e
    by (simp add: align_up_def cfg_half_def params_two_tiles_def params_small_def)
  have f: "\<not> kNeedsAccumGradK cfg_float \<and> \<not> kNeedsAccumGradV cfg_float \<and>
      \<not> kNeedsAccumGradQ cfg_float \<and>
      fits 32 (num_batches params_two_tiles * num_heads params_two_tiles)"
    by (simp add: kNeedsAccumGradK_def kNeedsAccumGradV_def kNeedsAccumGradQ_def
        output_is_accum_def cfg_float_def cfg_half_def fits_def params_two_tiles_def
        params_small_def)
  from r e f workspace_size_formula [of cfg_half params_two_tiles]
    workspace_size_formula [of cfg_float params_two_tiles]
  show ?thesis by simp
qed

text \<open>
  Outside that range the source's arithmetic overflows: with \<open>2 ^ 24\<close> keys and a
  feature dimension of 128 the key-gradient plane has \<open>2 ^ 31\<close> elements, which the
  \<^verbatim>\<open>int32_t\<close> product of \<^verbatim>\<open>workspace_elements_gk\<close> cannot hold. The input
  passes \<^verbatim>\<open>check_supported\<close>.
\<close>

lemma workspace_elements_gk_overflow:
  "workspace_elements_gk cfg_half params_many_keys = None"
  by (simp add: workspace_elements_gk_def kNeedsAccumGradK_def kOutputInRF_def kIsHalf_def
      output_is_accum_def cfg_half_def params_many_keys_def params_small_def align_up_c_def
      chk_def fits_def signed_divide_int_def)

lemma check_supported_many_keys: "check_supported cfg_half params_many_keys = Inr True"
  by (simp add: check_supported_def supported_checks_def ALIGNED_PTR_def cfg_half_def
      params_many_keys_def params_small_def signed_modulo_int_def kIsHalf_def Let_def)

text \<open>
  C9. With \<open>2 ^ 24\<close> keys and a feature dimension of 128 in the half kernel of 64 by 64
  tiles, the size that the specification gives is \<open>8 * (2 ^ 31 + 2 ^ 30 + 8192)\<close> bytes,
  and \<^verbatim>\<open>workspace_size\<close> has no defined result: the product of the two
  \<^verbatim>\<open>int32_t\<close> values in \<^verbatim>\<open>workspace_elements_gk\<close> overflows before it is widened
  to the \<^verbatim>\<open>int64_t\<close> that the function returns.
\<close>

theorem workspace_size_overflow:
  "workspace_size cfg_half params_many_keys = None \<and>
   workspace_size_spec cfg_half params_many_keys = 8 * (2 ^ 31 + 2 ^ 30 + 8192)"
proof -
  have "workspace_strideBH cfg_half params_many_keys = None"
    by (simp add: workspace_strideBH_def workspace_elements_gk_overflow)
  then have "workspace_size cfg_half params_many_keys = None"
    by (simp add: workspace_size_def)
  moreover have "workspace_size_spec cfg_half params_many_keys = 8 * (2 ^ 31 + 2 ^ 30 + 8192)"
    by (simp add: workspace_size_spec_def E_gk_def E_gv_def E_gq_def align_up_def
        kNeedsAccumGradK_def kNeedsAccumGradV_def kNeedsAccumGradQ_def kOutputInRF_def
        kIsHalf_def output_is_accum_def cfg_half_def params_many_keys_def params_small_def
        sizeof_float_def)
  ultimately show ?thesis by simp
qed

section \<open>The tile schedule\<close>

lemma run_list_Nil_fun: "run_list body [] = Some"
  by (intro ext) simp

lemma run_list_append:
  "run_list body (xs @ ys) s = Option.bind (run_list body xs s) (run_list body ys)"
proof (induction xs arbitrary: s)
  case Nil
  show ?case by simp
next
  case (Cons x xs)
  have "run_list body (xs @ ys) = (\<lambda>s. Option.bind (run_list body xs s) (run_list body ys))"
    using Cons by (intro ext)
  then show ?case by simp
qed

lemma run_list_map: "run_list body (map g xs) s = run_list (\<lambda>x. body (g x)) xs s"
proof (induction xs arbitrary: s)
  case Nil
  show ?case by simp
next
  case (Cons x xs)
  have "run_list body (map g xs) = run_list (\<lambda>x. body (g x)) xs"
    using Cons by (intro ext)
  then show ?case by simp
qed

lemma run_list_concat:
  "run_list (\<lambda>i. run_list exec (g i)) xs s = run_list exec (concat (map g xs)) s"
proof (induction xs arbitrary: s)
  case Nil
  show ?case by simp
next
  case (Cons x xs)
  have "run_list (\<lambda>i. run_list exec (g i)) xs = run_list exec (concat (map g xs))"
    using Cons by (intro ext)
  moreover have "run_list exec (g x @ concat (map g xs))
      = (\<lambda>s. Option.bind (run_list exec (g x) s) (run_list exec (concat (map g xs))))"
    by (intro ext) (rule run_list_append)
  ultimately show ?case by simp
qed

lemma run_list_Some: "run_list (\<lambda>x s. Some (f x s)) xs s = Some (fold f xs s)"
  by (induction xs arbitrary: s) simp_all

lemma for_loop_steps:
  "0 < step \<Longrightarrow> for_loop i n step body s =
     map_option (Pair (i + step * int (length (steps i n step)))) (run_list body (steps i n step) s)"
proof (induction i n step arbitrary: s rule: steps.induct)
  case (1 i n step)
  show ?case
  proof (cases "i < n")
    case True
    have st: "steps i n step = i # steps (i + step) n step"
      using True 1(2) by (subst steps.simps) simp
    show ?thesis
    proof (cases "body i s")
      case None
      then show ?thesis using True by (subst for_loop.simps) (simp add: st)
    next
      case (Some s')
      have "for_loop i n step body s = for_loop (i + step) n step body s'"
        using True Some by (subst for_loop.simps) simp
      also have "\<dots> = map_option (Pair (i + step + step * int (length (steps (i + step) n step))))
          (run_list body (steps (i + step) n step) s')"
        using 1(1) [of s'] True 1(2) by simp
      finally show ?thesis using Some by (simp add: st algebra_simps)
    qed
  next
    case False
    then have "steps i n step = []" by (subst steps.simps) simp
    then show ?thesis using False by (subst for_loop.simps) simp
  qed
qed

lemma steps_closed:
  "0 < t \<Longrightarrow> steps i n t = map (\<lambda>j. i + int j * t) [0..<nat ((n - i + t - 1) div t)]"
proof (induction i n t rule: steps.induct)
  case (1 i n step)
  show ?case
  proof (cases "i < n")
    case True
    have st: "steps i n step = i # steps (i + step) n step"
      using True 1(2) by (subst steps.simps) simp
    have "(n - i + step - 1) div step = (n - (i + step) + step - 1 + step) div step"
      by (simp add: algebra_simps)
    also have "\<dots> = (n - (i + step) + step - 1) div step + 1"
      using 1(2) by (subst div_add_self2) auto
    finally have d: "(n - i + step - 1) div step = (n - (i + step) + step - 1) div step + 1" .
    have "0 \<le> (n - (i + step) + step - 1) div step"
      using True 1(2) by (simp add: pos_imp_zdiv_nonneg_iff)
    then have k: "nat ((n - i + step - 1) div step)
        = Suc (nat ((n - (i + step) + step - 1) div step))"
      unfolding d by simp
    show ?thesis
      unfolding st k using 1(1) True 1(2)
      by (simp add: upt_conv_Cons map_Suc_upt [symmetric] distrib_right del: upt_Suc)
  next
    case False
    then have e: "steps i n step = []" by (subst steps.simps) simp
    have "(n - i + step - 1) div step \<le> 0"
      using False 1(2) by (smt (verit) pos_imp_zdiv_pos_iff)
    then show ?thesis using e by simp
  qed
qed

lemma steps_tile_starts: "0 < t \<Longrightarrow> steps 0 n t = tile_starts n t"
  by (simp add: steps_closed tile_starts_def)

lemma div_mult_add_less:
  assumes "0 < t"
  shows "(q * t + t - 1) div t = (q::int)"
proof -
  have "(q * t + t - 1) div t = (t - 1 + q * t) div t" by (simp add: algebra_simps)
  also have "\<dots> = (t - 1) div t + q" using assms by (subst div_mult_self1) auto
  also have "\<dots> = q" using assms by (simp add: div_pos_pos_trivial)
  finally show ?thesis .
qed

lemma length_tile_starts_mult:
  assumes "0 < t" "0 \<le> q"
  shows "length (tile_starts (q * t) t) = nat q"
  using assms by (simp add: tile_starts_def div_mult_add_less)

lemma for_loop_tiles:
  assumes "0 < t" "0 \<le> q"
  shows "for_loop 0 (q * t) t body s =
    map_option (Pair (q * t)) (run_list body (tile_starts (q * t) t) s)"
  using assms
  by (simp add: for_loop_steps steps_tile_starts length_tile_starts_mult mult.commute)

lemma for_loop_all:
  assumes "0 < t"
  shows "Option.bind (for_loop 0 n t body s) (\<lambda>(e, s'). f s')
     = Option.bind (run_list body (tile_starts n t) s) f"
  using assms
  by (cases "run_list body (tile_starts n t) s")
    (simp_all add: for_loop_steps steps_tile_starts)

lemma mult_div_le:
  assumes "0 < t"
  shows "n div t * t \<le> (n::int)"
proof -
  have "n div t * t + n mod t = n" by simp
  moreover have "0 \<le> n mod t" using assms by simp
  ultimately show ?thesis by linarith
qed

lemma tile_starts_split:
  assumes "0 < t" "0 \<le> n"
  shows "tile_starts n t =
     tile_starts (n div t * t) t @ (if n div t * t < n then [n div t * t] else [])"
proof -
  have q0: "0 \<le> n div t" using assms by (simp add: pos_imp_zdiv_nonneg_iff)
  have a: "(n div t * t + t - 1) div t = n div t"
    using assms(1) by (rule div_mult_add_less)
  have e: "n div t * t + n mod t = n" by simp
  show ?thesis
  proof (cases "n div t * t < n")
    case True
    then have m: "0 < n mod t" using e by linarith
    have "(n + t - 1) div t = (n mod t + t - 1 + n div t * t) div t"
      by (simp add: algebra_simps)
    also have "\<dots> = (n mod t + t - 1) div t + n div t"
      using assms by (subst div_mult_self1) auto
    also have "(n mod t + t - 1) div t = 1"
    proof -
      have "n mod t - 1 < t" using pos_mod_bound [OF assms(1), of n] by linarith
      moreover have "0 \<le> n mod t - 1" using m by linarith
      moreover have "n mod t + t - 1 = t * 1 + (n mod t - 1)" by simp
      ultimately show ?thesis by (intro int_div_pos_eq [where r = "n mod t - 1"])
    qed
    finally have b: "nat ((n + t - 1) div t) = Suc (nat (n div t))" using q0 by simp
    show ?thesis using True q0 by (simp add: tile_starts_def a b)
  next
    case False
    then have "n div t * t = n" using mult_div_le [OF assms(1), of n] by linarith
    then show ?thesis using False by simp
  qed
qed

lemma tile_starts_full:
  assumes "0 < t" "0 \<le> q" "x \<in> set (tile_starts (q * t) t)"
  shows "0 \<le> x \<and> x + t \<le> q * t"
proof -
  have "x \<in> (\<lambda>j. int j * t) ` {0..<nat q}"
    using assms by (simp add: tile_starts_def div_mult_add_less)
  then have "\<exists>j. x = int j * t \<and> j < nat q" by auto
  then obtain j where j: "x = int j * t" "j < nat q" by blast
  then have "int j + 1 \<le> q" by simp
  then have "(int j + 1) * t \<le> q * t" using assms(1) by (intro mult_right_mono) auto
  then show ?thesis using j assms(1) by (simp add: distrib_right)
qed

lemma flush_key_tile_eq:
  "flush_key_tile exec cfg p b k s = run_list exec (flush_stages cfg p b k) s"
  by (simp add: flush_key_tile_def flush_stages_def getQueryStart_def run_list_Nil_fun)

lemma full_key_tile_eq:
  assumes "0 < kBlockSizeI cfg" "0 \<le> num_queries p"
  shows "full_key_tile exec cfg p key_start s =
     run_list exec (full_key_tile_stages cfg p key_start) s"
proof -
  define q where "q = num_queries p div kBlockSizeI cfg"
  have q0: "0 \<le> q" using assms by (simp add: q_def pos_imp_zdiv_nonneg_iff)
  have sd: "num_queries p sdiv kBlockSizeI cfg = q"
    using assms by (simp add: q_def sdiv_nonneg)
  have l: "for_loop 0 (q * kBlockSizeI cfg) (kBlockSizeI cfg) body t =
      map_option (Pair (q * kBlockSizeI cfg))
        (run_list body (tile_starts (q * kBlockSizeI cfg) (kBlockSizeI cfg)) t)" for body t
    using assms(1) q0 by (rule for_loop_tiles)
  show ?thesis
  proof (cases "exec ClearOutputFrags s")
    case None
    then show ?thesis
      by (simp add: full_key_tile_def full_key_tile_stages_def Let_def)
  next
    case (Some s1)
    show ?thesis
    proof (cases "run_list (\<lambda>x. exec (ProcessBlockIJ True x key_start))
        (tile_starts (q * kBlockSizeI cfg) (kBlockSizeI cfg)) s1")
      case None
      then show ?thesis
        using Some
        by (simp add: full_key_tile_def full_key_tile_stages_def getQueryStart_def sd l
            q_def [symmetric] run_list_append run_list_map Let_def)
    next
      case (Some s2)
      then show ?thesis
        using \<open>exec ClearOutputFrags s = Some s1\<close>
        by (simp add: full_key_tile_def full_key_tile_stages_def getQueryStart_def sd l
            q_def [symmetric] run_list_append run_list_map flush_key_tile_eq Let_def
            run_list_Nil_fun cong: Option.bind_cong)
    qed
  qed
qed

lemma last_key_tile_eq:
  assumes "0 < kBlockSizeI cfg"
  shows "last_key_tile exec cfg p key_start s =
     run_list exec (last_key_tile_stages cfg p key_start) s"
proof (cases "exec ClearOutputFrags s")
  case None
  then show ?thesis by (simp add: last_key_tile_def last_key_tile_stages_def)
next
  case (Some s1)
  have "last_key_tile exec cfg p key_start s =
    Option.bind (for_loop 0 (num_queries p) (kBlockSizeI cfg)
      (\<lambda>query_start. exec (ProcessBlockIJ False query_start key_start)) s1)
      (\<lambda>(e, s2). flush_key_tile exec cfg p False key_start s2)"
    using Some by (simp add: last_key_tile_def getQueryStart_def)
  also have "\<dots> = Option.bind (run_list (\<lambda>x. exec (ProcessBlockIJ False x key_start))
      (tile_starts (num_queries p) (kBlockSizeI cfg)) s1)
      (flush_key_tile exec cfg p False key_start)"
    using assms by (rule for_loop_all)
  finally show ?thesis
    using Some
    by (simp add: last_key_tile_stages_def run_list_append run_list_map flush_key_tile_eq
        cong: Option.bind_cong)
qed

lemma compute_delta_pass_eq:
  assumes "0 < kBlockSizeI cfg"
  shows "compute_delta_pass exec cfg p s = run_list exec (delta_stages cfg p) s"
proof -
  have l: "Option.bind (for_loop 0 (num_queries p) (kBlockSizeI cfg)
        (\<lambda>query_start. exec (ComputeDelta E query_start)) s) (\<lambda>(q, s1). exec SyncThreads s1)
    = Option.bind (run_list (\<lambda>x. exec (ComputeDelta E x))
        (tile_starts (num_queries p) (kBlockSizeI cfg)) s) (exec SyncThreads)" for E
    using assms by (rule for_loop_all)
  have r: "run_list exec [SyncThreads] = exec SyncThreads"
    by (intro ext) (simp add: run_list_Nil_fun)
  show ?thesis
    unfolding compute_delta_pass_def delta_stages_def Let_def
    by (simp add: l run_list_append run_list_map r)
qed

text \<open>
  The kernel is the run of its stages in the order of \<open>schedule\<close>, whatever the stages
  do; in particular it returns whenever every stage does.
\<close>

lemma attention_kernel_schedule:
  assumes "0 < kBlockSizeI cfg" "0 < kBlockSizeJ cfg" "0 \<le> num_queries p" "0 \<le> num_keys p"
  shows "attention_kernel exec cfg p s = run_list exec (schedule cfg p) s"
proof -
  define q where "q = num_keys p div kBlockSizeJ cfg"
  have q0: "0 \<le> q" using assms by (simp add: q_def pos_imp_zdiv_nonneg_iff)
  have sd: "num_keys p sdiv kBlockSizeJ cfg = q"
    using assms by (simp add: q_def sdiv_nonneg)
  have body: "full_key_tile exec cfg p = (\<lambda>k. run_list exec (full_key_tile_stages cfg p k))"
    using assms by (intro ext) (rule full_key_tile_eq)
  have loop: "for_loop 0 (q * kBlockSizeJ cfg) (kBlockSizeJ cfg) (full_key_tile exec cfg p) t
     = map_option (Pair (q * kBlockSizeJ cfg))
         (run_list exec (concat (map (full_key_tile_stages cfg p)
             (tile_starts (q * kBlockSizeJ cfg) (kBlockSizeJ cfg)))) t)" for t
    using assms q0 unfolding body
    by (simp add: for_loop_tiles run_list_concat)
  have b: "Option.bind (map_option (Pair e) x) (\<lambda>(k, t). f k t) = Option.bind x (f e)"
    for e :: int and x :: "'a option" and f :: "int \<Rightarrow> 'a \<Rightarrow> 'a option"
    by (cases x) simp_all
  have r1: "run_list exec [st] = exec st" for st
    by (intro ext) (simp add: run_list_Nil_fun)
  have n: "run_list exec [] = Some"
    by (intro ext) simp
  show ?thesis
    unfolding attention_kernel_def schedule_def Let_def sd q_def [symmetric] loop b
    using assms(1)
    by (cases "kPrologueQK cfg"; cases "q * kBlockSizeJ cfg = num_keys p")
      (simp_all add: compute_delta_pass_eq last_key_tile_eq run_list_append r1 n bind_assoc
        cong: Option.bind_cong)
qed

lemma blocks_Nil: "blocks [] = []"
  by (simp add: blocks_def map_filter_simps)

lemma blocks_Cons:
  "blocks (st # tr) = (case block_of st of None \<Rightarrow> blocks tr | Some b \<Rightarrow> b # blocks tr)"
  unfolding blocks_def by (simp add: map_filter_simps)

lemma blocks_append: "blocks (xs @ ys) = blocks xs @ blocks ys"
  by (induction xs) (simp_all add: blocks_Nil blocks_Cons split: option.splits)

lemma blocks_concat: "blocks (concat (map g xs)) = concat (map (\<lambda>x. blocks (g x)) xs)"
  by (induction xs) (simp_all add: blocks_append blocks_Nil)

lemma blocks_process: "blocks (map (\<lambda>q. ProcessBlockIJ b q k) xs) = map (\<lambda>q. (b, q, k)) xs"
  by (induction xs) (simp_all add: blocks_Nil blocks_Cons)

lemma blocks_compute_delta: "blocks (map (ComputeDelta E) xs) = []"
  by (induction xs) (simp_all add: blocks_Nil blocks_Cons)

lemma blocks_delta: "blocks (delta_stages cfg p) = []"
  by (simp add: delta_stages_def blocks_append blocks_compute_delta blocks_Cons blocks_Nil)

lemma blocks_flush: "blocks (flush_stages cfg p b k) = []"
  by (simp add: flush_stages_def blocks_Cons blocks_Nil)

lemma blocks_full_key_tile:
  "blocks (full_key_tile_stages cfg p k) =
     map (\<lambda>q. (True, q, k))
       (tile_starts (num_queries p div kBlockSizeI cfg * kBlockSizeI cfg) (kBlockSizeI cfg)) @
     (if num_queries p div kBlockSizeI cfg * kBlockSizeI cfg < num_queries p
      then [(False, num_queries p div kBlockSizeI cfg * kBlockSizeI cfg, k)] else [])"
  unfolding full_key_tile_stages_def Let_def blocks_append blocks_process blocks_flush
  by (simp add: blocks_Cons blocks_Nil)

lemma blocks_last_key_tile:
  "blocks (last_key_tile_stages cfg p k) =
     map (\<lambda>q. (False, q, k)) (tile_starts (num_queries p) (kBlockSizeI cfg))"
  unfolding last_key_tile_stages_def blocks_append blocks_process blocks_flush
  by (simp add: blocks_Cons blocks_Nil)

lemma blocks_schedule:
  "blocks (schedule cfg p) =
     concat (map (\<lambda>k. blocks (full_key_tile_stages cfg p k))
        (tile_starts (num_keys p div kBlockSizeJ cfg * kBlockSizeJ cfg) (kBlockSizeJ cfg))) @
     (if num_keys p div kBlockSizeJ cfg * kBlockSizeJ cfg \<noteq> num_keys p
      then blocks (last_key_tile_stages cfg p (num_keys p div kBlockSizeJ cfg * kBlockSizeJ cfg))
      else [])"
  unfolding schedule_def Let_def blocks_append blocks_concat blocks_delta
  by (simp add: blocks_Cons blocks_Nil)

lemma kernel_trace_schedule:
  assumes "0 < kBlockSizeI cfg" "0 < kBlockSizeJ cfg" "0 \<le> num_queries p" "0 \<le> num_keys p"
  shows "kernel_trace cfg p = Some (schedule cfg p)"
proof -
  have "fold (\<lambda>st tr. tr @ [st]) xs ys = ys @ xs" for xs ys :: "stage list"
    by (induction xs arbitrary: ys) simp_all
  then show ?thesis
    unfolding kernel_trace_def attention_kernel_schedule [OF assms] by (simp add: run_list_Some)
qed

lemma pairs_full_key_tile:
  assumes "0 < kBlockSizeI cfg" "0 \<le> num_queries p"
  shows "map (\<lambda>(skip, q, k). (k, q)) (blocks (full_key_tile_stages cfg p k))
     = map (\<lambda>q. (k, q)) (tile_starts (num_queries p) (kBlockSizeI cfg))"
  unfolding blocks_full_key_tile
  by (subst tile_starts_split [OF assms]) (simp add: comp_def)

lemma pairs_last_key_tile:
  "map (\<lambda>(skip, q, k). (k, q)) (blocks (last_key_tile_stages cfg p k))
     = map (\<lambda>q. (k, q)) (tile_starts (num_queries p) (kBlockSizeI cfg))"
  unfolding blocks_last_key_tile by (simp add: comp_def)

lemma pairs_schedule:
  assumes "0 < kBlockSizeI cfg" "0 < kBlockSizeJ cfg" "0 \<le> num_queries p" "0 \<le> num_keys p"
  shows "map (\<lambda>(skip, q, k). (k, q)) (blocks (schedule cfg p)) = tile_pairs cfg p"
proof -
  have le: "num_keys p div kBlockSizeJ cfg * kBlockSizeJ cfg \<le> num_keys p"
    using assms(2) by (rule mult_div_le)
  show ?thesis
    unfolding blocks_schedule tile_pairs_def
    apply (subst tile_starts_split [OF assms(2,4)])
    using le
    by (simp add: map_concat comp_def pairs_full_key_tile [OF assms(1,3)] pairs_last_key_tile)
qed

lemma skip_blocks_full:
  assumes "0 < kBlockSizeI cfg" "0 < kBlockSizeJ cfg" "0 \<le> num_queries p" "0 \<le> num_keys p"
    "(True, q, k) \<in> set (blocks (schedule cfg p))"
  shows "q + kBlockSizeI cfg \<le> num_queries p \<and> k + kBlockSizeJ cfg \<le> num_keys p"
proof -
  have qle: "num_queries p div kBlockSizeI cfg * kBlockSizeI cfg \<le> num_queries p"
    using assms(1) by (rule mult_div_le)
  have kle: "num_keys p div kBlockSizeJ cfg * kBlockSizeJ cfg \<le> num_keys p"
    using assms(2) by (rule mult_div_le)
  have q0: "0 \<le> num_queries p div kBlockSizeI cfg"
    using assms by (simp add: pos_imp_zdiv_nonneg_iff)
  have k0: "0 \<le> num_keys p div kBlockSizeJ cfg"
    using assms by (simp add: pos_imp_zdiv_nonneg_iff)
  from assms(5) have
    "q \<in> set (tile_starts (num_queries p div kBlockSizeI cfg * kBlockSizeI cfg) (kBlockSizeI cfg)) \<and>
     k \<in> set (tile_starts (num_keys p div kBlockSizeJ cfg * kBlockSizeJ cfg) (kBlockSizeJ cfg))"
    unfolding blocks_schedule blocks_full_key_tile blocks_last_key_tile
    by (auto split: if_splits)
  then show ?thesis
    using tile_starts_full [OF assms(1) q0, of q] tile_starts_full [OF assms(2) k0, of k] qle kle
    by linarith
qed

text \<open>
  C4. For positive tile sizes and non-negative lengths the kernel returns, and the calls
  of \<^verbatim>\<open>processBlockIJ\<close> it makes are, in order, exactly the pairs of a key-tile
  start \<open>0, tileJ, \<dots>\<close> below the key length (outer) and a query-tile start
  \<open>0, tileI, \<dots>\<close> below the query length (inner); in every call the valid row and
  column counts are \<open>min tileSize remaining\<close>, also where the bounds checks are skipped.
\<close>

theorem tile_schedule:
  assumes "0 < kBlockSizeI cfg" "0 < kBlockSizeJ cfg" "0 \<le> num_queries p" "0 \<le> num_keys p"
  shows "\<exists>tr. kernel_trace cfg p = Some tr \<and>
     map (\<lambda>(skip, query_start, key_start). (key_start, query_start)) (blocks tr)
       = tile_pairs cfg p \<and>
     (\<forall>(skip, query_start, key_start) \<in> set (blocks tr).
        num_queries_in_block cfg p skip query_start =
          min (kBlockSizeI cfg) (num_queries p - query_start) \<and>
        num_keys_in_block cfg p skip key_start =
          min (kBlockSizeJ cfg) (num_keys p - key_start))"
proof (intro exI conjI)
  show "kernel_trace cfg p = Some (schedule cfg p)"
    by (rule kernel_trace_schedule [OF assms])
  show "map (\<lambda>(skip, query_start, key_start). (key_start, query_start)) (blocks (schedule cfg p))
      = tile_pairs cfg p"
    by (rule pairs_schedule [OF assms])
  show "\<forall>(skip, query_start, key_start) \<in> set (blocks (schedule cfg p)).
        num_queries_in_block cfg p skip query_start =
          min (kBlockSizeI cfg) (num_queries p - query_start) \<and>
        num_keys_in_block cfg p skip key_start =
          min (kBlockSizeJ cfg) (num_keys p - key_start)"
  proof (clarify)
    fix skip q k
    assume m: "(skip, q, k) \<in> set (blocks (schedule cfg p))"
    show "num_queries_in_block cfg p skip q = min (kBlockSizeI cfg) (num_queries p - q) \<and>
        num_keys_in_block cfg p skip k = min (kBlockSizeJ cfg) (num_keys p - k)"
    proof (cases skip)
      case True
      with m skip_blocks_full [OF assms, of q k] show ?thesis
        by (simp add: num_queries_in_block_def num_keys_in_block_def)
    next
      case False
      then show ?thesis by (simp add: num_queries_in_block_def num_keys_in_block_def)
    qed
  qed
qed

theorem tile_schedule_witness:
  "0 < kBlockSizeI cfg_half \<and> 0 < kBlockSizeJ cfg_half \<and>
   0 \<le> num_queries params_two_tiles \<and> 0 \<le> num_keys params_two_tiles \<and>
   (\<exists>tr. kernel_trace cfg_half params_two_tiles = Some tr \<and>
      map (\<lambda>(skip, query_start, key_start). (key_start, query_start)) (blocks tr)
        = [(0, 0), (0, 64), (64, 0), (64, 64)])"
proof -
  have a: "0 < kBlockSizeI cfg_half" "0 < kBlockSizeJ cfg_half"
    "0 \<le> num_queries params_two_tiles" "0 \<le> num_keys params_two_tiles"
    by (simp_all add: cfg_half_def params_two_tiles_def params_small_def)
  have t: "tile_pairs cfg_half params_two_tiles = [(0, 0), (0, 64), (64, 0), (64, 64)]"
    by (simp add: tile_pairs_def tile_starts_def cfg_half_def params_two_tiles_def
        params_small_def upt_rec)
  from tile_schedule [OF a] a t show ?thesis by auto
qed

section \<open>Zero fill of key tiles without queries\<close>

lemma zero_at_zero_at: "zero_at A (zero_at B h) = zero_at (A \<union> B) h"
  by (auto simp add: zero_at_def)

lemma zero_at_empty: "zero_at {} h = h"
  by (simp add: zero_at_def)

lemma run_list_zero_at:
  assumes "\<And>x h. body x h = Some (zero_at (A x) h)"
  shows "run_list body xs h = Some (zero_at (\<Union>x \<in> set xs. A x) h)"
proof (induction xs arbitrary: h)
  case Nil
  show ?case by (simp add: zero_at_empty)
next
  case (Cons x xs)
  have "run_list body (x # xs) h = run_list body xs (zero_at (A x) h)"
    by (simp add: assms)
  also have "\<dots> = Some (zero_at ((\<Union>x \<in> set xs. A x) \<union> A x) h)"
    by (simp add: Cons zero_at_zero_at)
  finally show ?case by (simp add: Un_commute)
qed

lemma zfill_row_eq:
  "zfill_row ptr k_shift n h =
     Some (zero_at ((\<lambda>k. ptr + k) ` set (steps k_shift n kThreadsPerKey)) h)"
proof -
  have b: "Some (h(ptr + k := 0)) = Some (zero_at {ptr + k} h)" for k and h :: "int \<Rightarrow> 'a"
    by (auto simp add: zero_at_def)
  have "run_list (\<lambda>k h. Some (h(ptr + k := 0))) xs h =
      Some (zero_at (\<Union>k \<in> set xs. {ptr + k}) h)" for xs
    by (rule run_list_zero_at) (rule b)
  moreover have "(\<Union>k \<in> set xs. {ptr + k}) = (\<lambda>k. ptr + k) ` set xs" for xs
    by auto
  ultimately show ?thesis
    by (simp add: zfill_row_def for_loop_steps kThreadsPerKey_def)
qed

lemma zfillGradKV_eq:
  assumes "0 < kParallelKeys cfg"
  shows "zfillGradKV cfg skip p key_start warp_id lane_id h =
     Some (zero_at (zfill_writes cfg skip p key_start warp_id lane_id) h)"
proof -
  let ?A = "\<lambda>j. let key = key_start + j + (32 * warp_id + lane_id) sdiv kThreadsPerKey in
        if \<not> skip \<and> key \<ge> num_keys p then {}
        else (\<lambda>k. grad_value_ptr p + key * gV_strideM p + k) `
               set (steps (lane_id smod kThreadsPerKey) (head_dim_value p) kThreadsPerKey) \<union>
             (\<lambda>k. grad_key_ptr p + key * gK_strideM p + k) `
               set (steps (lane_id smod kThreadsPerKey) (head_dim p) kThreadsPerKey)"
  let ?body = "\<lambda>j h.
           let key = key_start + j + (32 * warp_id + lane_id) sdiv kThreadsPerKey in
           if \<not> skip \<and> key \<ge> num_keys p then Some h
           else
             let gv_ptr = grad_value_ptr p + key * gV_strideM p;
                 gk_ptr = grad_key_ptr p + key * gK_strideM p
             in do {
               h1 \<leftarrow> zfill_row gv_ptr (lane_id smod kThreadsPerKey) (head_dim_value p) h;
               zfill_row gk_ptr (lane_id smod kThreadsPerKey) (head_dim p) h1
             }"
  have b: "?body j h = Some (zero_at (?A j) h)" for j and h :: "int \<Rightarrow> 'a"
    by (simp add: Let_def zfill_row_eq zero_at_zero_at zero_at_empty Un_commute)
  have "run_list ?body xs h = Some (zero_at (\<Union>j \<in> set xs. ?A j) h)" for xs
    by (rule run_list_zero_at) (rule b)
  then show ?thesis
    unfolding zfillGradKV_def zfill_writes_def Let_def
    using assms by (simp add: for_loop_steps Let_def)
qed

lemma zfill_block_eq:
  assumes "0 < kParallelKeys cfg"
  shows "run_block (zfillGradKV cfg skip p key_start) order h =
     Some (zero_at (\<Union>thread_id \<in> set order.
        zfill_writes cfg skip p key_start (thread_id sdiv 32) (thread_id smod 32)) h)"
  unfolding run_block_def
  by (rule run_list_zero_at) (rule zfillGradKV_eq [OF assms])

lemma steps_member:
  "0 < t \<Longrightarrow> i \<le> x \<Longrightarrow> x < n \<Longrightarrow> (x - i) mod t = 0 \<Longrightarrow> x \<in> set (steps i n t)"
proof (induction i n t rule: steps.induct)
  case (1 i n step)
  have st: "steps i n step = i # steps (i + step) n step"
    using 1(2,3,4) by (subst steps.simps) simp
  show ?case
  proof (cases "x = i")
    case True
    then show ?thesis by (simp add: st)
  next
    case False
    then have pos: "0 < x - i" using 1(3) by simp
    have "step dvd x - i" using 1(5) by (simp add: mod_eq_0_iff_dvd)
    then have "step \<le> x - i" using pos by (rule zdvd_imp_le)
    moreover have "(x - (i + step)) mod step = 0"
      using 1(5) by (metis diff_diff_add minus_mod_self2)
    ultimately have "x \<in> set (steps (i + step) n step)"
      using 1(1) [OF _ 1(2)] 1(2,3,4) by simp
    then show ?thesis by (simp add: st)
  qed
qed


lemma kNumThreads_kParallelKeys: "kNumThreads cfg = kThreadsPerKey * kParallelKeys cfg"
proof -
  have "(32 * w) sdiv 8 = 4 * w" for w :: int
  proof (cases "0 \<le> w")
    case True
    then show ?thesis by (simp add: sdiv_nonneg)
  next
    case False
    then have a: "\<bar>32 * w\<bar> = 8 * (4 * (- w))" and s: "sgn (32 * w) = - 1"
      by simp_all
    show ?thesis
      unfolding signed_divide_int_def a s by simp
  qed
  then show ?thesis
    by (simp add: kNumThreads_def kParallelKeys_def kThreadsPerKey_def kWarpSize_def)
qed


lemma zfill_thread_for:
  assumes P: "0 < kParallelKeys cfg"
    and key: "key_start \<le> key" "key < key_start + kBlockSizeJ cfg" "skip \<or> key < num_keys p"
    and k: "0 \<le> k"
  shows "\<exists>thread_id. 0 \<le> thread_id \<and> thread_id < kNumThreads cfg \<and>
     (k < head_dim_value p \<longrightarrow> grad_value_ptr p + key * gV_strideM p + k
        \<in> zfill_writes cfg skip p key_start (thread_id sdiv 32) (thread_id smod 32)) \<and>
     (k < head_dim p \<longrightarrow> grad_key_ptr p + key * gK_strideM p + k
        \<in> zfill_writes cfg skip p key_start (thread_id sdiv 32) (thread_id smod 32))"
proof -
  define d where "d = key - key_start"
  define j where "j = d div kParallelKeys cfg * kParallelKeys cfg"
  define r where "r = d mod kParallelKeys cfg"
  define t where "t = 8 * r + k mod 8"
  have d: "0 \<le> d" "d < kBlockSizeJ cfg" using key by (simp_all add: d_def)
  have r: "0 \<le> r" "r < kParallelKeys cfg" using P by (simp_all add: r_def)
  have dj: "d = j + r" by (simp add: j_def r_def)
  have j0: "0 \<le> j" using P d by (simp add: j_def pos_imp_zdiv_nonneg_iff)
  have jm: "j mod kParallelKeys cfg = 0" by (simp add: j_def)
  have jlt: "j < kBlockSizeJ cfg" using dj r d by linarith
  have km: "0 \<le> k mod 8" "k mod 8 < 8" by simp_all
  have t0: "0 \<le> t" using r km by (simp add: t_def)
  have "t < 8 * (r + 1)" using km by (simp add: t_def)
  also have "\<dots> \<le> 8 * kParallelKeys cfg" using r by simp
  finally have tlt: "t < kNumThreads cfg"
    by (simp add: kNumThreads_kParallelKeys kThreadsPerKey_def)
  have tid: "32 * (t sdiv 32) + t smod 32 = t"
    using t0 by (simp add: sdiv_nonneg smod_nonneg)
  have "t mod 32 mod 8 = t mod 8" by (simp add: mod_mod_cancel)
  also have "\<dots> = k mod 8" by (simp add: t_def)
  finally have shift: "(t smod 32) smod kThreadsPerKey = k mod 8"
    using t0 by (simp add: smod_nonneg kThreadsPerKey_def)
  have "t div 8 = r" using km by (simp add: t_def)
  then have row: "t sdiv kThreadsPerKey = r"
    using t0 by (simp add: sdiv_nonneg kThreadsPerKey_def)
  have keyeq: "key_start + j + r = key"
    using dj by (simp add: d_def)
  have jin: "j \<in> set (steps 0 (kBlockSizeJ cfg) (kParallelKeys cfg))"
    using P j0 jlt jm by (intro steps_member) simp_all
  have kle: "k mod 8 \<le> k" using k by (rule zmod_le_nonneg_dividend)
  have kin: "k < n \<Longrightarrow> k \<in> set (steps (k mod 8) n 8)" for n
    using kle by (intro steps_member) (simp_all add: minus_mod_eq_mult_div)
  have nb: "\<not> (\<not> skip \<and> key \<ge> num_keys p)" using key(3) by auto
  have sub: "(\<lambda>k'. grad_value_ptr p + key * gV_strideM p + k') `
        set (steps (k mod 8) (head_dim_value p) 8) \<union>
      (\<lambda>k'. grad_key_ptr p + key * gK_strideM p + k') ` set (steps (k mod 8) (head_dim p) 8)
      \<subseteq> zfill_writes cfg skip p key_start (t sdiv 32) (t smod 32)"
    unfolding zfill_writes_def tid shift row keyeq Let_def
    using key(3) by (intro SUP_upper2 [OF jin]) (auto simp add: keyeq kThreadsPerKey_def)
  have "k < head_dim_value p \<longrightarrow> grad_value_ptr p + key * gV_strideM p + k
        \<in> zfill_writes cfg skip p key_start (t sdiv 32) (t smod 32)"
    using sub kin [of "head_dim_value p"] by blast
  moreover have "k < head_dim p \<longrightarrow> grad_key_ptr p + key * gK_strideM p + k
        \<in> zfill_writes cfg skip p key_start (t sdiv 32) (t smod 32)"
    using sub kin [of "head_dim p"] by blast
  ultimately show ?thesis using t0 tlt by blast
qed

text \<open>
  C7. In a kernel that does not keep the gradients in registers, a key tile whose first
  query offset is at or past the number of queries runs \<^verbatim>\<open>zfillGradKV\<close> and no
  \<^verbatim>\<open>processBlockIJ\<close>; and \<^verbatim>\<open>zfillGradKV\<close>, run by the threads of the block in
  any order, returns with \<^verbatim>\<open>scalar_t(0)\<close> in every feature element of the GradValue
  and GradKey rows of the tile (of its rows below \<open>num_keys\<close> when the bounds are
  checked).
\<close>

theorem zfill_empty_key_tile:
  fixes h :: "int \<Rightarrow> 's::zero"
  assumes "\<not> kOutputInRF cfg" "num_queries p \<le> getQueryStart p key_start"
    "0 < kBlockSizeI cfg" "0 < kParallelKeys cfg" "thread_order cfg order"
  shows "full_key_tile exec cfg p key_start s =
       run_list exec [ClearOutputFrags, ZfillGradKV True key_start, SyncThreads] s \<and>
     last_key_tile exec cfg p key_start s =
       run_list exec [ClearOutputFrags, ZfillGradKV False key_start] s \<and>
     (\<exists>h'. run_block (zfillGradKV cfg skip p key_start) order h = Some h' \<and>
        (\<forall>key k. key_start \<le> key \<and> key < key_start + kBlockSizeJ cfg \<and>
            (skip \<or> key < num_keys p) \<and> 0 \<le> k \<longrightarrow>
          (k < head_dim_value p \<longrightarrow> h' (grad_value_ptr p + key * gV_strideM p + k) = 0) \<and>
          (k < head_dim p \<longrightarrow> h' (grad_key_ptr p + key * gK_strideM p + k) = 0)))"
proof (intro conjI)
  have nq: "num_queries p \<le> 0" using assms(2) by (simp add: getQueryStart_def)
  then have q: "num_queries p div kBlockSizeI cfg * kBlockSizeI cfg \<le> 0"
    using mult_div_le [OF assms(3), of "num_queries p"] by linarith
  have e: "tile_starts n (kBlockSizeI cfg) = []" if "n \<le> 0" for n
  proof -
    have "(n + kBlockSizeI cfg - 1) div kBlockSizeI cfg \<le> 0"
      using that assms(3) by (smt (verit) pos_imp_zdiv_pos_iff)
    then show ?thesis by (simp add: tile_starts_def)
  qed
  have sd: "num_queries p sdiv kBlockSizeI cfg * kBlockSizeI cfg \<le> 0"
  proof -
    have "\<bar>num_queries p\<bar> div kBlockSizeI cfg \<ge> 0"
      using assms(3) by (simp add: pos_imp_zdiv_nonneg_iff)
    then have "num_queries p sdiv kBlockSizeI cfg \<le> 0"
      using nq assms(3)
      by (cases "num_queries p = 0") (simp_all add: signed_divide_int_def sgn_if)
    then show ?thesis using assms(3) by (simp add: mult_le_0_iff)
  qed
  have l: "for_loop 0 n (kBlockSizeI cfg) body t = Some (0, t)" if "n \<le> 0" for n body t
    using that by (subst for_loop.simps) simp
  show "full_key_tile exec cfg p key_start s =
       run_list exec [ClearOutputFrags, ZfillGradKV True key_start, SyncThreads] s"
    using assms(1) nq sd
    by (simp add: full_key_tile_def getQueryStart_def l flush_key_tile_def run_list_Nil_fun
        cong: Option.bind_cong)
  show "last_key_tile exec cfg p key_start s =
       run_list exec [ClearOutputFrags, ZfillGradKV False key_start] s"
    using assms(1) nq
    by (simp add: last_key_tile_def getQueryStart_def l flush_key_tile_def run_list_Nil_fun
        cong: Option.bind_cong)
  let ?W = "\<Union>thread_id \<in> set order.
        zfill_writes cfg skip p key_start (thread_id sdiv 32) (thread_id smod 32)"
  have run: "run_block (zfillGradKV cfg skip p key_start) order h = Some (zero_at ?W h)"
    by (rule zfill_block_eq [OF assms(4)])
  have cover: "(k < head_dim_value p \<longrightarrow> grad_value_ptr p + key * gV_strideM p + k \<in> ?W) \<and>
          (k < head_dim p \<longrightarrow> grad_key_ptr p + key * gK_strideM p + k \<in> ?W)"
    if kk: "key_start \<le> key" "key < key_start + kBlockSizeJ cfg" "skip \<or> key < num_keys p"
      "0 \<le> k"
    for key k
  proof -
    obtain t where t: "0 \<le> t" "t < kNumThreads cfg"
      "k < head_dim_value p \<longrightarrow> grad_value_ptr p + key * gV_strideM p + k
        \<in> zfill_writes cfg skip p key_start (t sdiv 32) (t smod 32)"
      "k < head_dim p \<longrightarrow> grad_key_ptr p + key * gK_strideM p + k
        \<in> zfill_writes cfg skip p key_start (t sdiv 32) (t smod 32)"
      using zfill_thread_for [OF assms(4) kk] by blast
    have "t \<in> set order" using t(1,2) assms(5) by (simp add: thread_order_def)
    then show ?thesis using t(3,4) by blast
  qed
  show "\<exists>h'. run_block (zfillGradKV cfg skip p key_start) order h = Some h' \<and>
        (\<forall>key k. key_start \<le> key \<and> key < key_start + kBlockSizeJ cfg \<and>
            (skip \<or> key < num_keys p) \<and> 0 \<le> k \<longrightarrow>
          (k < head_dim_value p \<longrightarrow> h' (grad_value_ptr p + key * gV_strideM p + k) = 0) \<and>
          (k < head_dim p \<longrightarrow> h' (grad_key_ptr p + key * gK_strideM p + k) = 0))"
    unfolding run using cover by (simp add: zero_at_def)
qed


theorem zfill_empty_key_tile_witness:
  "\<not> kOutputInRF cfg_half \<and>
   num_queries params_no_queries \<le> getQueryStart params_no_queries 64 \<and>
   0 < kBlockSizeI cfg_half \<and> 0 < kParallelKeys cfg_half \<and> thread_order cfg_half [0..127] \<and>
   last_key_tile (\<lambda>st tr. Some (tr @ [st])) cfg_half params_no_queries 64 []
     = Some [ClearOutputFrags, ZfillGradKV False 64] \<and>
   (\<exists>h'. run_block (zfillGradKV cfg_half False params_no_queries 64) [0..127] (\<lambda>a. 1::int)
       = Some h' \<and>
     h' (grad_key_ptr params_no_queries + 69 * gK_strideM params_no_queries + 7) = 0)"
proof -
  have a: "\<not> kOutputInRF cfg_half"
    "num_queries params_no_queries \<le> getQueryStart params_no_queries 64"
    "0 < kBlockSizeI cfg_half" "0 < kParallelKeys cfg_half" "thread_order cfg_half [0..127]"
    by (auto simp add: kOutputInRF_def kIsHalf_def cfg_half_def params_no_queries_def
        params_small_def getQueryStart_def kParallelKeys_def kNumThreads_def kWarpSize_def
        kNumWarpsPerBlock_def kThreadsPerKey_def thread_order_def signed_divide_int_def)
  note t = zfill_empty_key_tile [OF a, of "\<lambda>st tr. Some (tr @ [st])" "[]" False "\<lambda>a. 1::int"]
  from t obtain h' where h: "run_block (zfillGradKV cfg_half False params_no_queries 64)
      [0..127] (\<lambda>a. 1::int) = Some h'"
    "\<forall>key k. 64 \<le> key \<and> key < 64 + kBlockSizeJ cfg_half \<and>
        (False \<or> key < num_keys params_no_queries) \<and> 0 \<le> k \<longrightarrow>
      (k < head_dim_value params_no_queries \<longrightarrow>
         h' (grad_value_ptr params_no_queries + key * gV_strideM params_no_queries + k) = 0) \<and>
      (k < head_dim params_no_queries \<longrightarrow>
         h' (grad_key_ptr params_no_queries + key * gK_strideM params_no_queries + k) = 0)"
    by blast
  have r: "(64::int) \<le> 69 \<and> 69 < 64 + kBlockSizeJ cfg_half \<and>
      (False \<or> 69 < num_keys params_no_queries) \<and> (0::int) \<le> 7"
    "7 < head_dim params_no_queries"
    by (simp_all add: cfg_half_def params_no_queries_def params_small_def)
  from h(2) r have "h' (grad_key_ptr params_no_queries + 69 * gK_strideM params_no_queries + 7) = 0"
    by blast
  with h(1) t a show ?thesis by (simp add: run_list_Nil_fun)
qed

section \<open>The stages of one tile\<close>

lemma sum_list_cong_set:
  assumes "\<And>x. x \<in> set xs \<Longrightarrow> g x = (g' x :: real)"
  shows "(\<Sum>x\<leftarrow>xs. g x) = (\<Sum>x\<leftarrow>xs. g' x)"
  using assms by (induction xs) simp_all

lemma MatmulQK_accum_eq:
  assumes "0 \<le> m" "m < num_keys_in_block cfg p skip key_start"
    "0 \<le> n" "n < num_queries_in_block cfg p skip query_start"
  shows "MatmulQK_accum nm cfg p skip query_start key_start sheap m n =
     rawScore nm p sheap (key_start + m) (query_start + n)"
  unfolding MatmulQK_accum_def rawScore_def mma_def Let_def
  using assms
  by (auto intro!: sum_list_cong_set
      simp add: iterator_row_major_def iterator_column_major_def Key_def Query_def algebra_simps)

lemma MatmulDOIVJ_accum_eq:
  assumes "0 \<le> m" "m < num_queries_in_block cfg p skip query_start"
    "0 \<le> n" "n < num_keys_in_block cfg p skip key_start"
  shows "MatmulDOIVJ_accum nm cfg p skip query_start key_start sheap m n =
     rawGrad nm p sheap (query_start + m) (key_start + n)"
  unfolding MatmulDOIVJ_accum_def rawGrad_def mma_def Let_def
  using assms
  by (auto intro!: sum_list_cong_set
      simp add: iterator_row_major_def iterator_column_major_def OutputGradient_def Value_def
        algebra_simps)

text \<open>
  C1. After the MatmulQK block of an iteration, every in-range element of the shared
  attention tile (key row \<open>m\<close>, query column \<open>n\<close>) holds
  \<open>exp (scale * rawScore - logSumExp[query])\<close>, and with a bias enabled
  \<open>exp (scale * rawScore + bias - logSumExp[query])\<close>, converted to the element type of
  the tile. The bias is the element (query, key) of the tile its loader left.
\<close>

theorem score_recomputation:
  assumes "0 \<le> m" "m < num_keys_in_block cfg p skip key_start"
    "0 \<le> n" "n < num_queries_in_block cfg p skip query_start"
  shows "attn_shared_storage
      (MatmulQK_block nm eng cfg p skip query_start key_start sheap fheap ss) m n =
    scalar_of nm (exp (
      (if broadcast_1_kEnable cfg \<or> broadcast_2_kEnable cfg
       then rawScore nm p sheap (key_start + m) (query_start + n) * scale p +
            bias_epilogue eng (bias1_ptr p + key_start)
              (bias2_ptr p + query_start * num_keys p + key_start)
              (num_queries_in_block cfg p skip query_start,
               num_keys_in_block cfg p skip key_start) (num_keys p) sheap n m
       else scale p * rawScore nm p sheap (key_start + m) (query_start + n))
      - logSumExp p fheap (query_start + n)))"
  unfolding MatmulQK_block_def Let_def
  by (simp add: accumApplyLSEToSmem_def MatmulQK_accum_eq [OF assms] logSumExp_def
      add.assoc)


theorem score_recomputation_witness:
  "(0::int) \<le> 0 \<and> 0 < num_keys_in_block cfg_float params_small False 0 \<and>
   0 < num_queries_in_block cfg_float params_small False 0 \<and>
   attn_shared_storage (MatmulQK_block nm_exact eng_none cfg_float params_small False 0 0
       (\<lambda>a. 1) (\<lambda>a. 0) ss_init) 0 0 = exp 4"
proof -
  have a: "(0::int) \<le> 0" "0 < num_keys_in_block cfg_float params_small False 0"
    "0 < num_queries_in_block cfg_float params_small False 0"
    by (simp_all add: num_keys_in_block_def num_queries_in_block_def cfg_float_def cfg_half_def
        params_small_def)
  have r: "rawScore nm_exact params_small (\<lambda>a. 1) 0 0 = 8"
    by (simp add: rawScore_def Key_def Query_def nm_exact_def params_small_def upto_rec1)
  from score_recomputation [OF a(1,2) a(1,3), of nm_exact eng_none "\<lambda>a. 1" "\<lambda>a. 0" ss_init] a r
  show ?thesis
    by (simp add: cfg_float_def cfg_half_def nm_exact_def logSumExp_def)
      (simp add: params_small_def)
qed

lemma fold_loadDi:
  "fold (loadDi cfg p query_start fheap) order d m =
     (if m \<in> set order \<and> m < kBlockSizeI cfg
      then (if query_start + m < num_queries p then delta p fheap (query_start + m) else 0)
      else d m)"
  by (induction order arbitrary: d) (auto simp add: loadDi_def delta_def)

lemma di_processBlockIJ_QK:
  "di (processBlockIJ_QK nm eng cfg p skip query_start key_start order sheap fheap ss) m =
     (if m \<in> set order \<and> m < kBlockSizeI cfg
      then (if query_start + m < num_queries p then delta p fheap (query_start + m) else 0)
      else di ss m)"
  by (simp add: processBlockIJ_QK_def MatmulQK_block_def Let_def loadDi_block_def fold_loadDi)

text \<open>
  C2. In every iteration that the kernel schedules, the fragment after the correction of
  the MatmulDOIVJ block holds \<open>(rawGrad[q, k] - delta[q]) * weight[q, k]\<close> at every
  element inside the valid counts, with the weight that the MatmulQK block of the same
  iteration stored, and exactly zero at every other element of the tile.
\<close>

theorem score_gradient:
  assumes "0 < kBlockSizeI cfg" "0 < kBlockSizeJ cfg" "0 \<le> num_queries p" "0 \<le> num_keys p"
    and "kernel_trace cfg p = Some tr" "(skip, query_start, key_start) \<in> set (blocks tr)"
    and "kBlockSizeI cfg \<le> kNumThreads cfg" "thread_order cfg order"
    and "0 \<le> m" "m < kBlockSizeI cfg" "0 \<le> n" "n < kBlockSizeJ cfg"
  shows "dSij nm cfg p skip query_start key_start sheap
      (processBlockIJ_QK nm eng cfg p skip query_start key_start order sheap fheap ss) m n =
    (if m < num_queries_in_block cfg p skip query_start \<and>
        n < num_keys_in_block cfg p skip key_start
     then (rawGrad nm p sheap (query_start + m) (key_start + n)
             - delta p fheap (query_start + m)) *
          accum_of nm (attn_shared_storage
            (processBlockIJ_QK nm eng cfg p skip query_start key_start order sheap fheap ss)
            n m)
     else 0)"
proof -
  have tr: "tr = schedule cfg p"
    using kernel_trace_schedule [OF assms(1-4)] assms(5) by simp
  have full: "skip \<Longrightarrow> query_start + kBlockSizeI cfg \<le> num_queries p \<and>
      key_start + kBlockSizeJ cfg \<le> num_keys p"
    using skip_blocks_full [OF assms(1-4), of query_start key_start] assms(6) tr by simp
  have mo: "m \<in> set order"
    using assms(7-10) by (simp add: thread_order_def)
  show ?thesis
  proof (cases "m < num_queries_in_block cfg p skip query_start \<and>
      n < num_keys_in_block cfg p skip key_start")
    case True
    have "query_start + m < num_queries p"
      using True full assms(10) by (cases skip) (simp_all add: num_queries_in_block_def)
    then have d: "di (processBlockIJ_QK nm eng cfg p skip query_start key_start order sheap
        fheap ss) m = delta p fheap (query_start + m)"
      using mo assms(10) by (simp add: di_processBlockIJ_QK)
    have "MatmulDOIVJ_accum nm cfg p skip query_start key_start sheap m n =
        rawGrad nm p sheap (query_start + m) (key_start + n)"
      using True assms(9,11) by (intro MatmulDOIVJ_accum_eq) simp_all
    then show ?thesis using True d by (simp add: dSij_def Let_def)
  next
    case False
    then have "\<not> skip"
      using assms(10,12) by (auto simp add: num_queries_in_block_def num_keys_in_block_def)
    then show ?thesis using False by (auto simp add: dSij_def Let_def)
  qed
qed


theorem score_gradient_witness:
  "0 < kBlockSizeI cfg_half \<and> 0 < kBlockSizeJ cfg_half \<and>
   0 \<le> num_queries params_two_tiles \<and> 0 \<le> num_keys params_two_tiles \<and>
   kernel_trace cfg_half params_two_tiles = Some (schedule cfg_half params_two_tiles) \<and>
   (False, 64, 64) \<in> set (blocks (schedule cfg_half params_two_tiles)) \<and>
   kBlockSizeI cfg_half \<le> kNumThreads cfg_half \<and> thread_order cfg_half [0..127] \<and>
   dSij nm_exact cfg_half params_two_tiles False 64 64 (\<lambda>a. 1)
     (processBlockIJ_QK nm_exact eng_none cfg_half params_two_tiles False 64 64 [0..127]
        (\<lambda>a. 1) (\<lambda>a. 0) ss_init) 0 0 = 8 * exp 4 \<and>
   dSij nm_exact cfg_half params_two_tiles False 64 64 (\<lambda>a. 1)
     (processBlockIJ_QK nm_exact eng_none cfg_half params_two_tiles False 64 64 [0..127]
        (\<lambda>a. 1) (\<lambda>a. 0) ss_init) 6 0 = 0"
proof -
  have a: "0 < kBlockSizeI cfg_half" "0 < kBlockSizeJ cfg_half"
    "0 \<le> num_queries params_two_tiles" "0 \<le> num_keys params_two_tiles"
    by (simp_all add: cfg_half_def params_two_tiles_def params_small_def)
  have t: "kernel_trace cfg_half params_two_tiles = Some (schedule cfg_half params_two_tiles)"
    by (rule kernel_trace_schedule [OF a])
  have b: "(False, 64, 64) \<in> set (blocks (schedule cfg_half params_two_tiles))"
    by (simp add: blocks_schedule blocks_full_key_tile blocks_last_key_tile tile_starts_def
        cfg_half_def params_two_tiles_def params_small_def upt_rec)
  have c: "kBlockSizeI cfg_half \<le> kNumThreads cfg_half" "thread_order cfg_half [0..127]"
    by (auto simp add: cfg_half_def kNumThreads_def kWarpSize_def kNumWarpsPerBlock_def
        thread_order_def signed_divide_int_def)
  have n: "num_queries_in_block cfg_half params_two_tiles False 64 = 6"
    "num_keys_in_block cfg_half params_two_tiles False 64 = 36"
    by (simp_all add: num_queries_in_block_def num_keys_in_block_def cfg_half_def
        params_two_tiles_def params_small_def)
  have g: "rawGrad nm_exact params_two_tiles (\<lambda>a. 1) (64 + 0) (64 + 0) = 8"
    by (simp add: rawGrad_def OutputGradient_def Value_def nm_exact_def params_two_tiles_def
        params_small_def upto_rec1)
  have r: "rawScore nm_exact params_two_tiles (\<lambda>a. 1) (64 + 0) (64 + 0) = 8"
    by (simp add: rawScore_def Key_def Query_def nm_exact_def params_two_tiles_def
        params_small_def upto_rec1)
  have w: "attn_shared_storage
      (processBlockIJ_QK nm_exact eng_none cfg_half params_two_tiles False 64 64 [0..127]
        (\<lambda>a. 1) (\<lambda>a. 0) ss_init) 0 0 = exp 4"
    unfolding processBlockIJ_QK_def MatmulQK_block_def Let_def
    using MatmulQK_accum_eq [of 0 cfg_half params_two_tiles False 64 0 64 nm_exact "\<lambda>a. 1"] n r
    by (simp add: accumApplyLSEToSmem_def cfg_half_def nm_exact_def)
      (simp add: params_two_tiles_def params_small_def)
  have d: "delta params_two_tiles (\<lambda>a. 0) (64 + 0) = 0"
    by (simp add: delta_def)
  from score_gradient [OF a t b c, of 0 0 nm_exact "\<lambda>a. 1" eng_none "\<lambda>a. 0" ss_init]
    score_gradient [OF a t b c, of 6 0 nm_exact "\<lambda>a. 1" eng_none "\<lambda>a. 0" ss_init]
    a t b c n g w d
  show ?thesis
    by (simp add: cfg_half_def nm_exact_def)
qed

text \<open>
  C5. The two bias-gradient epilogues, when enabled and given a destination, receive the
  fragment \<open>dSij\<close> before the multiplication by \<open>scale\<close>, the first before the second,
  so what they write does not depend on \<open>scale\<close>; the fragment that is stored for the
  GradQ and GradK matmuls is \<open>dSij * scale\<close>. In the preloading layout without
  transposed read the GradK operand is that stored tile read through the union of the
  two buffers.
\<close>

theorem bias_gradient_before_scale:
  "fst (MatmulDOIVJ_block nm eng cfg p skip query_start key_start sheap (fheap, ss)) =
     (let dS = dSij nm cfg p skip query_start key_start sheap ss;
          extent = (num_queries_in_block cfg p skip query_start,
                    num_keys_in_block cfg p skip key_start);
          fheap1 = (if broadcast_1_kEnable cfg \<and> grad_bias1_ptr p \<noteq> 0
                    then grad_bias1_epilogue eng (grad_bias1_ptr p + key_start) extent dS fheap
                    else fheap)
      in if broadcast_2_kEnable cfg \<and> grad_bias2_ptr p \<noteq> 0
         then grad_bias2_epilogue eng (num_keys p)
                (grad_bias2_ptr p + query_start * num_keys p + key_start) extent dS fheap1
         else fheap1) \<and>
   fst (MatmulDOIVJ_block nm eng cfg (p \<lparr> scale := c \<rparr>) skip query_start key_start sheap
          (fheap, ss)) =
     fst (MatmulDOIVJ_block nm eng cfg p skip query_start key_start sheap (fheap, ss)) \<and>
   MatmulGradQ_operandA
       (snd (MatmulDOIVJ_block nm eng cfg p skip query_start key_start sheap (fheap, ss))) m n =
     scalar_of nm (dSij nm cfg p skip query_start key_start sheap ss m n * scale p) \<and>
   MatmulGradK_operandA cfg
       (snd (MatmulDOIVJ_block nm eng cfg p skip query_start key_start sheap (fheap, ss))) n m =
     (if kPreload cfg \<and> \<not> kIsTransposedA cfg
      then union_view (kBlockSizeJ cfg) (kBlockSizeI cfg)
             (\<lambda>m n. scalar_of nm (dSij nm cfg p skip query_start key_start sheap ss m n * scale p))
             n m
      else scalar_of nm (dSij nm cfg p skip query_start key_start sheap ss m n * scale p))"
proof -
  have n: "num_queries_in_block cfg (p \<lparr> scale := c \<rparr>) = num_queries_in_block cfg p"
    "num_keys_in_block cfg (p \<lparr> scale := c \<rparr>) = num_keys_in_block cfg p"
    by (intro ext, simp add: num_queries_in_block_def num_keys_in_block_def)+
  have a: "MatmulDOIVJ_accum nm cfg (p \<lparr> scale := c \<rparr>) =
      MatmulDOIVJ_accum nm cfg p"
    by (intro ext) (simp add: MatmulDOIVJ_accum_def n)
  have s: "dSij nm cfg (p \<lparr> scale := c \<rparr>) = dSij nm cfg p"
    by (intro ext) (simp add: dSij_def a n)
  show ?thesis
    unfolding MatmulDOIVJ_block_def Let_def s n
    by (simp add: MatmulGradQ_operandA_def MatmulGradK_operandA_def accumToSmem_def
        store_tmp_def store_tmpT_def kIsTransposedA_def)
qed

lemma dSij_example:
  "dSij nm_exact c p False 0 0 (\<lambda>a. 1) ss_ones 0 0 = 8"
  if "kBlockSizeI c = 64" "kBlockSizeJ c = 64" "num_queries p = 5" "num_keys p = 5"
    "head_dim_value p = 8"
proof -
  have n: "0 < num_queries_in_block c p False 0" "0 < num_keys_in_block c p False 0"
    using that by (simp_all add: num_queries_in_block_def num_keys_in_block_def)
  have g: "rawGrad nm_exact p (\<lambda>a. 1) (0 + 0) (0 + 0) = 8"
    using that by (simp add: rawGrad_def OutputGradient_def Value_def nm_exact_def upto_rec1)
  have "MatmulDOIVJ_accum nm_exact c p False 0 0 (\<lambda>a. 1) 0 0 = 8"
    using MatmulDOIVJ_accum_eq [of 0 c p False 0 0 0 nm_exact "\<lambda>a. 1"] n g by simp
  then show ?thesis
    using n by (simp add: dSij_def Let_def ss_ones_def ss_init_def nm_exact_def)
qed

theorem bias_gradient_before_scale_witness:
  "fst (MatmulDOIVJ_block nm_exact eng_store cfg_bias2 params_bias2 False 0 0 (\<lambda>a. 1)
          (\<lambda>a. 0, ss_ones)) 2048 = 8 \<and>
   MatmulGradQ_operandA
     (snd (MatmulDOIVJ_block nm_exact eng_store cfg_bias2 params_bias2 False 0 0 (\<lambda>a. 1)
             (\<lambda>a. 0, ss_ones))) 0 0 = 4"
proof -
  have d: "dSij nm_exact cfg_bias2 params_bias2 False 0 0 (\<lambda>a. 1) ss_ones 0 0 = 8"
    by (rule dSij_example)
      (simp_all add: cfg_bias2_def cfg_half_def params_bias2_def params_small_def)
  from bias_gradient_before_scale [of nm_exact eng_store cfg_bias2 params_bias2 False 0 0
      "\<lambda>a. 1" "\<lambda>a. 0" ss_ones 0 0 0] d
  show ?thesis
    by (simp add: Let_def cfg_bias2_def cfg_half_def eng_store_def nm_exact_def)
      (simp add: params_bias2_def params_small_def)
qed





section \<open>computeDelta\<close>

































section \<open>The dropout mask\<close>

text \<open>
  The stages of \<^verbatim>\<open>processBlockIJ\<close> leave the \<^verbatim>\<open>zij\<close> tile as they find it, and the
  head of the function does not read \<^verbatim>\<open>dropout_batch_head_rng_offset\<close>. The kernel
  with dropout and a dropout probability of one half passes \<^verbatim>\<open>check_supported\<close>.
\<close>

lemma zij_processBlockIJ_QK:
  "zij (processBlockIJ_QK nm eng cfg p skip query_start key_start order sheap fheap ss) = zij ss"
  by (simp add: processBlockIJ_QK_def MatmulQK_block_def loadDi_block_def Let_def)

lemma zij_processBlockIJ_DOIVJ:
  "zij (snd (processBlockIJ_DOIVJ nm eng cfg p skip query_start key_start order sheap
      (fheap, ss))) = zij ss"
  by (simp add: processBlockIJ_DOIVJ_def MatmulDOIVJ_block_def zij_processBlockIJ_QK Let_def
      store_tmp_def store_tmpT_def split: prod.splits)

lemma rng_offset_processBlockIJ_QK:
  "processBlockIJ_QK nm eng cfg (p \<lparr> dropout_batch_head_rng_offset := x \<rparr>) skip query_start
     key_start order sheap fheap ss =
   processBlockIJ_QK nm eng cfg p skip query_start key_start order sheap fheap ss"
proof -
  let ?p = "p \<lparr> dropout_batch_head_rng_offset := x \<rparr>"
  have q: "num_queries_in_block cfg ?p = num_queries_in_block cfg p"
    by (intro ext) (simp add: num_queries_in_block_def)
  have k: "num_keys_in_block cfg ?p = num_keys_in_block cfg p"
    by (intro ext) (simp add: num_keys_in_block_def)
  have l: "loadDi cfg ?p = loadDi cfg p"
    by (intro ext) (simp add: loadDi_def)
  show ?thesis
    by (simp add: processBlockIJ_QK_def MatmulQK_block_def MatmulQK_accum_def
        loadDi_block_def q k l Let_def cong: if_cong)
qed

lemma check_supported_dropout: "check_supported cfg_dropout params_dropout = Inr True"
  by (simp add: check_supported_def supported_checks_def ALIGNED_PTR_def cfg_dropout_def
      params_dropout_def cfg_half_def params_small_def signed_modulo_int_def
      kIsHalf_def Let_def)

text \<open>
  C6. With dropout enabled, the mask that the GradV matmul applies to the weights is the
  \<^verbatim>\<open>zij\<close> tile of the shared storage as the block finds it: on the same parameters,
  heaps and tile coordinate, a run that finds zeros there applies the mask 0 to the
  weight 1, and a run that finds ones applies the mask 1.
\<close>

theorem dropout_mask_from_shared_storage:
  "MatmulGradV_operandA nm_exact cfg_dropout
     (processBlockIJ_QK nm_exact eng_none cfg_dropout params_dropout False 0 0 [0..127]
        (\<lambda>a. 0) (\<lambda>a. 0) ss_init) 0 0 = 0 \<and>
   MatmulGradV_operandA nm_exact cfg_dropout
     (processBlockIJ_QK nm_exact eng_none cfg_dropout params_dropout False 0 0 [0..127]
        (\<lambda>a. 0) (\<lambda>a. 0) (ss_init \<lparr> zij := (\<lambda>m n. 1) \<rparr>)) 0 0 = 1"
proof -
  have k: "kApplyDropout cfg_dropout" by (simp add: cfg_dropout_def)
  have b: "\<not> (broadcast_1_kEnable cfg_dropout \<or> broadcast_2_kEnable cfg_dropout)"
    by (simp add: cfg_dropout_def cfg_half_def)
  have a: "attn_shared_storage
      (processBlockIJ_QK nm_exact eng_none cfg_dropout params_dropout False 0 0 [0..127]
        (\<lambda>a. 0) (\<lambda>a. 0) ss) 0 0 = 1" for ss
    using b
    by (simp add: processBlockIJ_QK_def MatmulQK_block_def MatmulQK_accum_def mma_def
        iterator_row_major_def iterator_column_major_def accumApplyLSEToSmem_def
        nm_exact_def Let_def cong: if_cong)
  show ?thesis
    unfolding MatmulGradV_operandA_def using k
    by (simp add: a zij_processBlockIJ_QK) (simp add: nm_exact_def ss_init_def)
qed

end
